theory Spec2Isabelle
  imports Complex_Main
begin

section \<open>Numbers, vectors and the world query\<close>

text \<open>
  The repository holds three first-person movement controllers built on Three.js:
  the first program of \<^verbatim>\<open>script.js\<close> (lines 1-247, suffix \<open>_s1\<close>), the second
  program of \<^verbatim>\<open>script.js\<close> (lines 248-486, suffix \<open>_s2\<close>), and \<^verbatim>\<open>game.js\<close>
  (suffix \<open>_g\<close>). JavaScript numbers are modelled as real numbers, so the rounding of
  IEEE doubles is not part of the model. The Three.js calls the controllers make
  (vector arithmetic, \<^verbatim>\<open>PointerLockControls.moveRight/moveForward\<close>, the ray caster)
  are written out below as far as the controllers depend on them.
\<close>

datatype Vector3 = Vector3 (cx: real) (cy: real) (cz: real)

definition Number :: "bool \<Rightarrow> real" where
  "Number b = (if b then 1 else 0)"

definition setX :: "Vector3 \<Rightarrow> real \<Rightarrow> Vector3" where
  "setX v a = Vector3 a (cy v) (cz v)"

definition setY :: "Vector3 \<Rightarrow> real \<Rightarrow> Vector3" where
  "setY v a = Vector3 (cx v) a (cz v)"

definition setZ :: "Vector3 \<Rightarrow> real \<Rightarrow> Vector3" where
  "setZ v a = Vector3 (cx v) (cy v) a"

definition length3 :: "Vector3 \<Rightarrow> real" where
  "length3 v = sqrt (cx v * cx v + cy v * cy v + cz v * cz v)"

definition multiplyScalar :: "Vector3 \<Rightarrow> real \<Rightarrow> Vector3" where
  "multiplyScalar v s = Vector3 (cx v * s) (cy v * s) (cz v * s)"

definition divideScalar :: "Vector3 \<Rightarrow> real \<Rightarrow> Vector3" where
  "divideScalar v s = multiplyScalar v (1 / s)"

text \<open>
  Three.js: \<^verbatim>\<open>normalize() { return this.divideScalar( this.length() || 1 ); }\<close>.
  A zero length is replaced by 1 before the division.
\<close>

definition lengthOr1 :: "Vector3 \<Rightarrow> real" where
  "lengthOr1 v = (if length3 v = 0 then 1 else length3 v)"

definition normalize :: "Vector3 \<Rightarrow> Vector3" where
  "normalize v = divideScalar v (lengthOr1 v)"

definition add3 :: "Vector3 \<Rightarrow> Vector3 \<Rightarrow> Vector3" where
  "add3 a b = Vector3 (cx a + cx b) (cy a + cy b) (cz a + cz b)"

definition subVectors :: "Vector3 \<Rightarrow> Vector3 \<Rightarrow> Vector3" where
  "subVectors a b = Vector3 (cx a - cx b) (cy a - cy b) (cz a - cz b)"

definition addScaledVector :: "Vector3 \<Rightarrow> Vector3 \<Rightarrow> real \<Rightarrow> Vector3" where
  "addScaledVector p v s = Vector3 (cx p + cx v * s) (cy p + cy v * s) (cz p + cz v * s)"

definition crossVectors :: "Vector3 \<Rightarrow> Vector3 \<Rightarrow> Vector3" where
  "crossVectors a b =
     Vector3 (cy a * cz b - cz a * cy b) (cz a * cx b - cx a * cz b) (cx a * cy b - cy a * cx b)"

definition distanceTo :: "Vector3 \<Rightarrow> Vector3 \<Rightarrow> real" where
  "distanceTo a b = length3 (subVectors a b)"

text \<open>\<^verbatim>\<open>v.applyAxisAngle(new THREE.Vector3(0, 1, 0), angle)\<close>: rotation about the Y axis.\<close>

definition applyAxisAngleY :: "Vector3 \<Rightarrow> real \<Rightarrow> Vector3" where
  "applyAxisAngleY v a =
     Vector3 (cx v * cos a + cz v * sin a) (cy v) (cz v * cos a - cx v * sin a)"

definition camera_up :: Vector3 where
  "camera_up = Vector3 0 1 0"

text \<open>
  The world query. \<^verbatim>\<open>raycaster.intersectObjects(objects)\<close> is answered by Three.js from
  the level geometry; the controllers only look at the list of intersection distances,
  nearest first. The query is a parameter: origin, direction, near and far limit
  (\<open>None\<close> for the default \<^verbatim>\<open>Infinity\<close>) give the distances.
\<close>

type_synonym raycast = "Vector3 \<Rightarrow> Vector3 \<Rightarrow> real \<Rightarrow> real option \<Rightarrow> real list"

section \<open>The controller state\<close>

text \<open>
  The module-level variables of the three programs. \<open>position\<close> is
  \<^verbatim>\<open>camera.position\<close>, which is also \<^verbatim>\<open>controls.getObject().position\<close>.
  \<open>matrixX\<close> is column 0 of \<^verbatim>\<open>camera.matrix\<close> (the camera's right vector, read by
  \<^verbatim>\<open>PointerLockControls\<close>), \<open>rotation_y\<close> is \<^verbatim>\<open>controls.getObject().rotation.y\<close>,
  \<open>worldDirection\<close> is what \<^verbatim>\<open>camera.getWorldDirection\<close> returns; the three are
  written by the mouse look only. \<open>isLocked\<close> is \<^verbatim>\<open>controls.isLocked\<close>.
\<close>

record game =
  position :: Vector3
  velocity :: Vector3
  direction :: Vector3
  moveForward :: bool
  moveBackward :: bool
  moveLeft :: bool
  moveRight :: bool
  canJump :: bool
  isSprinting :: bool
  isCrouching :: bool
  prevTime :: real
  isLocked :: bool
  matrixX :: Vector3
  rotation_y :: real
  worldDirection :: Vector3

text \<open>
  \<^verbatim>\<open>PointerLockControls.moveRight(distance)\<close> adds \<open>distance\<close> times column 0 of the
  camera matrix to the position; \<^verbatim>\<open>moveForward(distance)\<close> adds \<open>distance\<close> times
  \<^verbatim>\<open>crossVectors(camera.up, column 0)\<close>.
\<close>

definition controls_moveRight :: "game \<Rightarrow> real \<Rightarrow> game" where
  "controls_moveRight s distance =
     s\<lparr>position := addScaledVector (position s) (matrixX s) distance\<rparr>"

definition controls_moveForward :: "game \<Rightarrow> real \<Rightarrow> game" where
  "controls_moveForward s distance =
     s\<lparr>position := addScaledVector (position s) (crossVectors camera_up (matrixX s)) distance\<rparr>"

text \<open>The intent vector of all three programs: \<^verbatim>\<open>direction.z = Number(moveForward) - Number(moveBackward);
  direction.x = Number(moveRight) - Number(moveLeft); direction.normalize();\<close>.
  \<^verbatim>\<open>direction.y\<close> is never assigned and keeps its value.\<close>

definition rawDirection :: "game \<Rightarrow> Vector3" where
  "rawDirection s =
     Vector3 (Number (moveRight s) - Number (moveLeft s))
             (cy (direction s))
             (Number (moveForward s) - Number (moveBackward s))"

definition inputDirection :: "game \<Rightarrow> Vector3" where
  "inputDirection s = normalize (rawDirection s)"

section \<open>script.js, first program (lines 1-247)\<close>

definition WALK_SPEED_s1 :: real where "WALK_SPEED_s1 = 50"
definition SPRINT_SPEED_s1 :: real where "SPRINT_SPEED_s1 = 90"
definition JUMP_FORCE_s1 :: real where "JUMP_FORCE_s1 = 20"
definition GRAVITY_s1 :: real where "GRAVITY_s1 = 60"
definition PLAYER_HEIGHT_s1 :: real where "PLAYER_HEIGHT_s1 = 18 / 10"
definition PLAYER_RADIUS_s1 :: real where "PLAYER_RADIUS_s1 = 15 / 10"

text \<open>\<^verbatim>\<open>onKeyDown\<close>, lines 65-79.\<close>

definition onKeyDown_s1 :: "string \<Rightarrow> game \<Rightarrow> game" where
  "onKeyDown_s1 code s =
     (if code = ''KeyW'' then s\<lparr>moveForward := True\<rparr>
      else if code = ''KeyA'' then s\<lparr>moveLeft := True\<rparr>
      else if code = ''KeyS'' then s\<lparr>moveBackward := True\<rparr>
      else if code = ''KeyD'' then s\<lparr>moveRight := True\<rparr>
      else if code = ''Space'' then
        (if canJump s
         then s\<lparr>velocity := setY (velocity s) JUMP_FORCE_s1, canJump := False\<rparr>
         else s)
      else if code = ''ShiftLeft'' then s\<lparr>isSprinting := True\<rparr>
      else s)"

text \<open>\<^verbatim>\<open>onKeyUp\<close>, lines 81-89.\<close>

definition onKeyUp_s1 :: "string \<Rightarrow> game \<Rightarrow> game" where
  "onKeyUp_s1 code s =
     (if code = ''KeyW'' then s\<lparr>moveForward := False\<rparr>
      else if code = ''KeyA'' then s\<lparr>moveLeft := False\<rparr>
      else if code = ''KeyS'' then s\<lparr>moveBackward := False\<rparr>
      else if code = ''KeyD'' then s\<lparr>moveRight := False\<rparr>
      else if code = ''ShiftLeft'' then s\<lparr>isSprinting := False\<rparr>
      else s)"

text \<open>
  \<^verbatim>\<open>detectCollision(newPosition)\<close>, lines 157-171. \<open>playerPos\<close> is a clone of the
  current camera position; the ray starts there, points to \<open>newPosition\<close> and is
  limited to \<open>PLAYER_RADIUS\<close>. (\<open>dist\<close> is computed and not used.)
\<close>

definition detectCollision_s1 :: "raycast \<Rightarrow> game \<Rightarrow> Vector3 \<Rightarrow> bool" where
  "detectCollision_s1 w s newPosition =
     (let playerPos = position s;
          dir = normalize (subVectors newPosition playerPos);
          dist = distanceTo newPosition playerPos;
          intersects = w playerPos dir 0 (Some PLAYER_RADIUS_s1)
      in length intersects > 0)"

text \<open>Lines 197-213 of \<^verbatim>\<open>animate\<close>: damping, gravity, intent vector, acceleration.\<close>

definition updateVelocity_s1 :: "real \<Rightarrow> game \<Rightarrow> game" where
  "updateVelocity_s1 delta s =
     (let v = velocity s;
          vx1 = cx v - cx v * 10 * delta;
          vz1 = cz v - cz v * 10 * delta;
          vy1 = cy v - GRAVITY_s1 * delta;
          d = inputDirection s;
          currentSpeed = (if isSprinting s then SPRINT_SPEED_s1 else WALK_SPEED_s1);
          vz2 = (if moveForward s \<or> moveBackward s then vz1 - cz d * currentSpeed * delta else vz1);
          vx2 = (if moveLeft s \<or> moveRight s then vx1 - cx d * currentSpeed * delta else vx1)
      in s\<lparr>velocity := Vector3 vx2 vy1 vz2, direction := d\<rparr>)"

text \<open>Lines 218-224: the X-axis move. \<^verbatim>\<open>detectCollision\<close> receives the camera
  position itself.\<close>

definition moveX_s1 :: "raycast \<Rightarrow> real \<Rightarrow> game \<Rightarrow> game" where
  "moveX_s1 w delta s =
     (let s1 = controls_moveRight s (- cx (velocity s) * delta)
      in if detectCollision_s1 w s1 (position s1)
         then (controls_moveRight s1 (cx (velocity s1) * delta))\<lparr>velocity := setX (velocity s1) 0\<rparr>
         else s1)"

text \<open>Lines 226-232: the Z-axis move.\<close>

definition moveZ_s1 :: "raycast \<Rightarrow> real \<Rightarrow> game \<Rightarrow> game" where
  "moveZ_s1 w delta s =
     (let s1 = controls_moveForward s (- cz (velocity s) * delta)
      in if detectCollision_s1 w s1 (position s1)
         then (controls_moveForward s1 (cz (velocity s1) * delta))\<lparr>velocity := setZ (velocity s1) 0\<rparr>
         else s1)"

text \<open>What the two collision tests of a frame answer: the test after the X-axis move
  (line 220) and the test after the Z-axis move (line 228).\<close>

definition blockedX_s1 :: "raycast \<Rightarrow> real \<Rightarrow> game \<Rightarrow> bool" where
  "blockedX_s1 w delta s =
     (let s1 = controls_moveRight s (- cx (velocity s) * delta)
      in detectCollision_s1 w s1 (position s1))"

definition blockedZ_s1 :: "raycast \<Rightarrow> real \<Rightarrow> game \<Rightarrow> bool" where
  "blockedZ_s1 w delta s =
     (let s1 = controls_moveForward s (- cz (velocity s) * delta)
      in detectCollision_s1 w s1 (position s1))"

text \<open>Line 235: vertical movement.\<close>

definition moveY :: "real \<Rightarrow> game \<Rightarrow> game" where
  "moveY delta s = s\<lparr>position := setY (position s) (cy (position s) + cy (velocity s) * delta)\<rparr>"

text \<open>Lines 237-242: the floor check.\<close>

definition floorCheck_s1 :: "game \<Rightarrow> game" where
  "floorCheck_s1 s =
     (if cy (position s) < PLAYER_HEIGHT_s1
      then s\<lparr>velocity := setY (velocity s) 0,
             position := setY (position s) PLAYER_HEIGHT_s1,
             canJump := True\<rparr>
      else s)"

text \<open>\<^verbatim>\<open>animate\<close>, lines 188-247; \<open>time\<close> is the value of \<^verbatim>\<open>performance.now()\<close>.\<close>

definition beforeFloorCheck_s1 :: "raycast \<Rightarrow> real \<Rightarrow> game \<Rightarrow> game" where
  "beforeFloorCheck_s1 w delta s =
     moveY delta (moveZ_s1 w delta (moveX_s1 w delta (updateVelocity_s1 delta s)))"

definition animate_s1 :: "raycast \<Rightarrow> real \<Rightarrow> game \<Rightarrow> game" where
  "animate_s1 w time s =
     (let s' = (if isLocked s
                then (let delta = (time - prevTime s) / 1000
                      in floorCheck_s1 (beforeFloorCheck_s1 w delta s))
                else s)
      in s'\<lparr>prevTime := time\<rparr>)"

text \<open>No directional key is held.\<close>

definition noInput :: "game \<Rightarrow> bool" where
  "noInput s = (\<not> moveForward s \<and> \<not> moveBackward s \<and> \<not> moveLeft s \<and> \<not> moveRight s)"

text \<open>\<open>n\<close> frames, each \<open>delta\<close> seconds after the one before.\<close>

fun ticks_s1 :: "raycast \<Rightarrow> real \<Rightarrow> nat \<Rightarrow> game \<Rightarrow> game" where
  "ticks_s1 w delta 0 s = s"
| "ticks_s1 w delta (Suc n) s =
     (let s' = ticks_s1 w delta n s in animate_s1 w (prevTime s' + 1000 * delta) s')"

section \<open>script.js, second program (lines 248-486)\<close>

definition MOVEMENT_SPEED_s2 :: real where "MOVEMENT_SPEED_s2 = 10"
definition SPRINT_MULTIPLIER_s2 :: real where "SPRINT_MULTIPLIER_s2 = 18 / 10"
definition CROUCH_SPEED_s2 :: real where "CROUCH_SPEED_s2 = 5"
definition JUMP_FORCE_s2 :: real where "JUMP_FORCE_s2 = 15"
definition WALL_JUMP_FORCE_UP_s2 :: real where "WALL_JUMP_FORCE_UP_s2 = 20"
definition WALL_JUMP_FORCE_SIDE_s2 :: real where "WALL_JUMP_FORCE_SIDE_s2 = 15"
definition GRAVITY_s2 :: real where "GRAVITY_s2 = 40"
definition PLAYER_HEIGHT_s2 :: real where "PLAYER_HEIGHT_s2 = 18 / 10"
definition CROUCH_HEIGHT_s2 :: real where "CROUCH_HEIGHT_s2 = 9 / 10"

text \<open>
  \<^verbatim>\<open>checkWallJump\<close>, lines 404-431. The global ray caster was built with near 0 and
  far 10 (line 373). The loop over the four directions returns whether the jump was
  granted, and the directions for which a ray was cast, in order.
\<close>

definition wallHit_s2 :: "raycast \<Rightarrow> Vector3 \<Rightarrow> Vector3 \<Rightarrow> bool" where
  "wallHit_s2 w origin dir =
     (case w origin dir 0 (Some 10) of [] \<Rightarrow> False | d0 # _ \<Rightarrow> d0 < 2)"

fun wallJumpLoop_s2 :: "raycast \<Rightarrow> Vector3 \<Rightarrow> real \<Rightarrow> Vector3 list \<Rightarrow> bool \<times> Vector3 list" where
  "wallJumpLoop_s2 w origin rotation [] = (False, [])"
| "wallJumpLoop_s2 w origin rotation (dir # rest) =
     (let dir' = applyAxisAngleY dir rotation
      in if wallHit_s2 w origin dir' then (True, [dir'])
         else (let (granted, cast) = wallJumpLoop_s2 w origin rotation rest
               in (granted, dir' # cast)))"

definition directions_s2 :: "Vector3 list" where
  "directions_s2 = [Vector3 1 0 0, Vector3 (-1) 0 0, Vector3 0 0 1, Vector3 0 0 (-1)]"

definition checkWallJump_s2 :: "raycast \<Rightarrow> game \<Rightarrow> game" where
  "checkWallJump_s2 w s =
     (if fst (wallJumpLoop_s2 w (position s) (rotation_y s) directions_s2)
      then s\<lparr>velocity := setY (velocity s) WALL_JUMP_FORCE_UP_s2\<rparr>
      else s)"

definition checkWallJump_rays_s2 :: "raycast \<Rightarrow> game \<Rightarrow> Vector3 list" where
  "checkWallJump_rays_s2 w s = snd (wallJumpLoop_s2 w (position s) (rotation_y s) directions_s2)"

text \<open>The four directions after the rotation by the yaw, in the order of the loop, and
  the condition under which the loop grants the jump.\<close>

definition rotatedDirections_s2 :: "game \<Rightarrow> Vector3 list" where
  "rotatedDirections_s2 s = map (\<lambda>d. applyAxisAngleY d (rotation_y s)) directions_s2"

definition wallInReach_s2 :: "raycast \<Rightarrow> game \<Rightarrow> bool" where
  "wallInReach_s2 w s = (\<exists>d \<in> set (rotatedDirections_s2 s). wallHit_s2 w (position s) d)"

text \<open>\<^verbatim>\<open>onKeyDown\<close>, lines 316-339.\<close>

definition onKeyDown_s2 :: "raycast \<Rightarrow> string \<Rightarrow> game \<Rightarrow> game" where
  "onKeyDown_s2 w code s =
     (if code = ''ArrowUp'' \<or> code = ''KeyW'' then s\<lparr>moveForward := True\<rparr>
      else if code = ''ArrowLeft'' \<or> code = ''KeyA'' then s\<lparr>moveLeft := True\<rparr>
      else if code = ''ArrowDown'' \<or> code = ''KeyS'' then s\<lparr>moveBackward := True\<rparr>
      else if code = ''ArrowRight'' \<or> code = ''KeyD'' then s\<lparr>moveRight := True\<rparr>
      else if code = ''Space'' then
        (if canJump s
         then s\<lparr>velocity := setY (velocity s) JUMP_FORCE_s2, canJump := False\<rparr>
         else checkWallJump_s2 w s)
      else if code = ''ShiftLeft'' then s\<lparr>isSprinting := True\<rparr>
      else if code = ''KeyC'' then
        (if \<not> isCrouching s
         then s\<lparr>isCrouching := True,
                position := setY (position s)
                   (cy (position s) - (PLAYER_HEIGHT_s2 - CROUCH_HEIGHT_s2))\<rparr>
         else s)
      else s)"

text \<open>\<^verbatim>\<open>onKeyUp\<close>, lines 341-355.\<close>

definition onKeyUp_s2 :: "string \<Rightarrow> game \<Rightarrow> game" where
  "onKeyUp_s2 code s =
     (if code = ''ArrowUp'' \<or> code = ''KeyW'' then s\<lparr>moveForward := False\<rparr>
      else if code = ''ArrowLeft'' \<or> code = ''KeyA'' then s\<lparr>moveLeft := False\<rparr>
      else if code = ''ArrowDown'' \<or> code = ''KeyS'' then s\<lparr>moveBackward := False\<rparr>
      else if code = ''ArrowRight'' \<or> code = ''KeyD'' then s\<lparr>moveRight := False\<rparr>
      else if code = ''ShiftLeft'' then s\<lparr>isSprinting := False\<rparr>
      else if code = ''KeyC'' then
        (if isCrouching s
         then s\<lparr>isCrouching := False,
                position := setY (position s)
                   (cy (position s) + (PLAYER_HEIGHT_s2 - CROUCH_HEIGHT_s2))\<rparr>
         else s)
      else s)"

text \<open>Line 475: \<^verbatim>\<open>isCrouching ? CROUCH_HEIGHT : PLAYER_HEIGHT\<close>.\<close>

definition currentHeight_s2 :: "game \<Rightarrow> real" where
  "currentHeight_s2 s = (if isCrouching s then CROUCH_HEIGHT_s2 else PLAYER_HEIGHT_s2)"

text \<open>Lines 449-464 of \<^verbatim>\<open>animate\<close>. Gravity is the literal \<^verbatim>\<open>9.8 * 10.0\<close>.\<close>

definition updateVelocity_s2 :: "real \<Rightarrow> game \<Rightarrow> game" where
  "updateVelocity_s2 delta s =
     (let v = velocity s;
          vx1 = cx v - cx v * 10 * delta;
          vz1 = cz v - cz v * 10 * delta;
          vy1 = cy v - (98 / 10) * 10 * delta;
          speed0 = MOVEMENT_SPEED_s2;
          speed1 = (if isSprinting s then speed0 * SPRINT_MULTIPLIER_s2 else speed0);
          actualSpeed = (if isCrouching s then CROUCH_SPEED_s2 else speed1);
          d = inputDirection s;
          vz2 = (if moveForward s \<or> moveBackward s
                 then vz1 - cz d * 400 * delta * (actualSpeed / 10) else vz1);
          vx2 = (if moveLeft s \<or> moveRight s
                 then vx1 - cx d * 400 * delta * (actualSpeed / 10) else vx1)
      in s\<lparr>velocity := Vector3 vx2 vy1 vz2, direction := d\<rparr>)"

text \<open>Lines 467-468: the horizontal move, without any collision test.\<close>

definition moveXZ_s2 :: "real \<Rightarrow> game \<Rightarrow> game" where
  "moveXZ_s2 delta s =
     controls_moveForward (controls_moveRight s (- cx (velocity s) * delta))
        (- cz (velocity s) * delta)"

text \<open>Lines 475-481: the floor check against the current height.\<close>

definition floorCheck_s2 :: "game \<Rightarrow> game" where
  "floorCheck_s2 s =
     (let currentHeight = currentHeight_s2 s
      in if cy (position s) < currentHeight
         then s\<lparr>velocity := setY (velocity s) 0,
                position := setY (position s) currentHeight,
                canJump := True\<rparr>
         else s)"

text \<open>\<^verbatim>\<open>animate\<close>, lines 439-486.\<close>

definition animate_s2 :: "real \<Rightarrow> game \<Rightarrow> game" where
  "animate_s2 time s =
     (let s' = (if isLocked s
                then (let delta = (time - prevTime s) / 1000
                      in floorCheck_s2 (moveY delta (moveXZ_s2 delta (updateVelocity_s2 delta s))))
                else s)
      in s'\<lparr>prevTime := time\<rparr>)"

text \<open>One press of the jump key followed by one frame \<open>delta\<close> seconds long, \<open>n\<close> times.\<close>

definition pressThenFrame_s2 :: "raycast \<Rightarrow> real \<Rightarrow> game \<Rightarrow> game" where
  "pressThenFrame_s2 w delta s =
     (let s1 = onKeyDown_s2 w ''Space'' s in animate_s2 (prevTime s1 + 1000 * delta) s1)"

fun pressAndTick_s2 :: "raycast \<Rightarrow> real \<Rightarrow> nat \<Rightarrow> game \<Rightarrow> game" where
  "pressAndTick_s2 w delta 0 s = s"
| "pressAndTick_s2 w delta (Suc n) s = pressThenFrame_s2 w delta (pressAndTick_s2 w delta n s)"

section \<open>game.js\<close>

definition NORMAL_SPEED_g :: real where "NORMAL_SPEED_g = 5"
definition SPRINT_SPEED_g :: real where "SPRINT_SPEED_g = 10"
definition CROUCH_SPEED_g :: real where "CROUCH_SPEED_g = 25 / 10"
definition JUMP_VELOCITY_g :: real where "JUMP_VELOCITY_g = 8"
definition GRAVITY_g :: real where "GRAVITY_g = 20"
definition NORMAL_HEIGHT_g :: real where "NORMAL_HEIGHT_g = 18 / 10"
definition CROUCH_HEIGHT_g :: real where "CROUCH_HEIGHT_g = 9 / 10"

text \<open>\<^verbatim>\<open>updateCameraHeight\<close>, lines 253-256.\<close>

definition updateCameraHeight_g :: "game \<Rightarrow> game" where
  "updateCameraHeight_g s =
     (let targetHeight = (if isCrouching s then CROUCH_HEIGHT_g else NORMAL_HEIGHT_g)
      in s\<lparr>position := setY (position s) targetHeight\<rparr>)"

text \<open>\<^verbatim>\<open>onKeyDown\<close>, lines 166-194.\<close>

definition onKeyDown_g :: "string \<Rightarrow> game \<Rightarrow> game" where
  "onKeyDown_g code s =
     (if code = ''KeyW'' then s\<lparr>moveForward := True\<rparr>
      else if code = ''KeyS'' then s\<lparr>moveBackward := True\<rparr>
      else if code = ''KeyA'' then s\<lparr>moveLeft := True\<rparr>
      else if code = ''KeyD'' then s\<lparr>moveRight := True\<rparr>
      else if code = ''Space'' then
        (if canJump s
         then s\<lparr>velocity := setY (velocity s) JUMP_VELOCITY_g, canJump := False\<rparr>
         else s)
      else if code = ''ShiftLeft'' then s\<lparr>isSprinting := True\<rparr>
      else if code = ''ControlLeft'' then updateCameraHeight_g (s\<lparr>isCrouching := True\<rparr>)
      else s)"

text \<open>\<^verbatim>\<open>onKeyUp\<close>, lines 196-218.\<close>

definition onKeyUp_g :: "string \<Rightarrow> game \<Rightarrow> game" where
  "onKeyUp_g code s =
     (if code = ''KeyW'' then s\<lparr>moveForward := False\<rparr>
      else if code = ''KeyS'' then s\<lparr>moveBackward := False\<rparr>
      else if code = ''KeyA'' then s\<lparr>moveLeft := False\<rparr>
      else if code = ''KeyD'' then s\<lparr>moveRight := False\<rparr>
      else if code = ''ShiftLeft'' then s\<lparr>isSprinting := False\<rparr>
      else if code = ''ControlLeft'' then updateCameraHeight_g (s\<lparr>isCrouching := False\<rparr>)
      else s)"

definition currentHeight_g :: "game \<Rightarrow> real" where
  "currentHeight_g s = (if isCrouching s then CROUCH_HEIGHT_g else NORMAL_HEIGHT_g)"

text \<open>\<^verbatim>\<open>checkCollisions\<close>, lines 258-273; the ray caster has the default limits.\<close>

definition onObject_g :: "raycast \<Rightarrow> game \<Rightarrow> bool" where
  "onObject_g w s =
     (case w (position s) (Vector3 0 (-1) 0) 0 None of
        [] \<Rightarrow> False
      | d0 # _ \<Rightarrow> d0 < currentHeight_g s + 1 / 10)"

definition checkCollisions_g :: "raycast \<Rightarrow> game \<Rightarrow> game" where
  "checkCollisions_g w s =
     (if onObject_g w s
      then (let s1 = s\<lparr>canJump := True\<rparr>
            in if cy (velocity s1) < 0 then s1\<lparr>velocity := setY (velocity s1) 0\<rparr> else s1)
      else s)"

text \<open>\<^verbatim>\<open>checkWallCollision\<close>, lines 275-279.\<close>

definition checkWallCollision_g :: "raycast \<Rightarrow> game \<Rightarrow> Vector3 \<Rightarrow> real \<Rightarrow> bool" where
  "checkWallCollision_g w s dir distance =
     (case w (position s) dir 0 None of [] \<Rightarrow> False | d0 # _ \<Rightarrow> d0 < distance)"

text \<open>Lines 294-320 of \<^verbatim>\<open>animate\<close>: the speed and the movement vector.\<close>

definition speed_g :: "game \<Rightarrow> real" where
  "speed_g s =
     (if isSprinting s \<and> \<not> isCrouching s then SPRINT_SPEED_g
      else if isCrouching s then CROUCH_SPEED_g
      else NORMAL_SPEED_g)"

definition moveVector_g :: "real \<Rightarrow> game \<Rightarrow> Vector3" where
  "moveVector_g delta s =
     (let d = direction s;
          speed = speed_g s;
          mv0 = Vector3 0 0 0;
          mv1 = (if moveForward s \<or> moveBackward s
                 then (let forward = normalize (setY (worldDirection s) 0)
                       in add3 mv0 (multiplyScalar forward (cz d * speed * delta)))
                 else mv0);
          mv2 = (if moveLeft s \<or> moveRight s
                 then (let right = normalize (setY (crossVectors (worldDirection s) camera_up) 0)
                       in add3 mv1 (multiplyScalar right (cx d * speed * delta)))
                 else mv1)
      in mv2)"

text \<open>Lines 322-328: one wall test along the whole movement vector.\<close>

definition moveHorizontal_g :: "raycast \<Rightarrow> real \<Rightarrow> game \<Rightarrow> game" where
  "moveHorizontal_g w delta s =
     (let moveVector = moveVector_g delta s
      in if length3 moveVector > 0
         then (let checkDirection = normalize moveVector
               in if \<not> checkWallCollision_g w s checkDirection (1 / 2)
                  then s\<lparr>position := add3 (position s) moveVector\<rparr>
                  else s)
         else s)"

text \<open>Lines 336-340: the floor clamp.\<close>

definition floorClamp_g :: "game \<Rightarrow> game" where
  "floorClamp_g s =
     (if cy (position s) < currentHeight_g s
      then s\<lparr>position := setY (position s) (currentHeight_g s),
             velocity := setY (velocity s) 0,
             canJump := True\<rparr>
      else s)"

text \<open>\<^verbatim>\<open>animate\<close>, lines 281-346; \<open>delta\<close> is the value of \<^verbatim>\<open>clock.getDelta()\<close>.\<close>

definition beforeFloorClamp_g :: "raycast \<Rightarrow> real \<Rightarrow> game \<Rightarrow> game" where
  "beforeFloorClamp_g w delta s =
     (let s1 = s\<lparr>velocity := setY (velocity s) (cy (velocity s) - GRAVITY_g * delta)\<rparr>;
          s2 = s1\<lparr>direction := inputDirection s1\<rparr>;
          s3 = moveHorizontal_g w delta s2;
          s4 = moveY delta s3
      in checkCollisions_g w s4)"

definition animate_g :: "raycast \<Rightarrow> real \<Rightarrow> game \<Rightarrow> game" where
  "animate_g w delta s = floorClamp_g (beforeFloorClamp_g w delta s)"

section \<open>Concrete states and worlds\<close>

text \<open>The state after \<^verbatim>\<open>init\<close> of \<^verbatim>\<open>script.js\<close>, with the pointer locked and the
  camera looking along \<open>-Z\<close>, and the same state at rest on the floor.\<close>

definition initial :: game where
  "initial =
     \<lparr>position = Vector3 0 (18 / 10) 0, velocity = Vector3 0 0 0, direction = Vector3 0 0 0,
      moveForward = False, moveBackward = False, moveLeft = False, moveRight = False,
      canJump = False, isSprinting = False, isCrouching = False, prevTime = 0,
      isLocked = True, matrixX = Vector3 1 0 0, rotation_y = 0,
      worldDirection = Vector3 0 0 (-1)\<rparr>"

definition grounded :: game where
  "grounded = initial\<lparr>canJump := True\<rparr>"

text \<open>An actor standing on the two units high box of \<^verbatim>\<open>game.js\<close> at
  \<open>(-10, 1, -10)\<close>, an actor on its way up, and an actor sliding over the floor.\<close>

definition onPlatform :: game where
  "onPlatform = initial\<lparr>position := Vector3 (-10) (38 / 10) (-10)\<rparr>"

definition rising :: game where
  "rising = initial\<lparr>velocity := Vector3 0 20 0\<rparr>"

definition sliding :: game where
  "sliding = initial\<lparr>velocity := Vector3 1 0 (-2)\<rparr>"

text \<open>An actor at rest that holds forward and right, and an airborne actor that has
  turned by a quarter turn.\<close>

definition diagonal :: game where
  "diagonal = grounded\<lparr>moveForward := True, moveRight := True\<rparr>"

definition turned :: game where
  "turned = initial\<lparr>rotation_y := pi / 2\<rparr>"

text \<open>A level without solids: no ray hits anything.\<close>

definition emptyWorld :: raycast where
  "emptyWorld origin dir near far = []"

text \<open>A wall filling the plane \<open>x = c\<close>: a ray meets it where its x coordinate
  reaches \<open>c\<close>, if that lies within the limits of the ray caster.\<close>

definition wallPlaneX :: "real \<Rightarrow> raycast" where
  "wallPlaneX c origin dir near far =
     (let t = (c - cx origin) / cx dir
      in if cx dir \<noteq> 0 \<and> near \<le> t \<and> (case far of None \<Rightarrow> True | Some f \<Rightarrow> t \<le> f)
         then [t] else [])"

text \<open>A platform whose top fills the plane \<open>y = h\<close>, met by a ray where its y
  coordinate reaches \<open>h\<close>.\<close>

definition platformY :: "real \<Rightarrow> raycast" where
  "platformY h origin dir near far =
     (let t = (h - cy origin) / cy dir
      in if cy dir \<noteq> 0 \<and> near \<le> t \<and> (case far of None \<Rightarrow> True | Some f \<Rightarrow> t \<le> f)
         then [t] else [])"

text \<open>A narrow shaft around the actor: every horizontal ray meets a wall one unit away.\<close>

definition shaftWorld :: raycast where
  "shaftWorld origin dir near far = (if cy dir = 0 then [1] else [])"

section \<open>Facts about vectors\<close>

lemma length3_multiplyScalar: "length3 (multiplyScalar v s) = \<bar>s\<bar> * length3 v"
proof -
  have "cx v * s * (cx v * s) + cy v * s * (cy v * s) + cz v * s * (cz v * s)
        = s\<^sup>2 * (cx v * cx v + cy v * cy v + cz v * cz v)"
    by (simp add: power2_eq_square algebra_simps)
  then show ?thesis
    by (simp add: length3_def multiplyScalar_def real_sqrt_mult)
qed

lemma length3_nonneg: "0 \<le> length3 v"
  by (simp add: length3_def)

lemma length3_zero_iff: "length3 v = 0 \<longleftrightarrow> v = Vector3 0 0 0"
proof
  assume h: "length3 v = 0"
  have "cx v * cx v + cy v * cy v + cz v * cz v = 0"
    using h by (simp add: length3_def)
  moreover have "0 \<le> cx v * cx v" "0 \<le> cy v * cy v" "0 \<le> cz v * cz v" by simp_all
  ultimately have "cx v * cx v = 0 \<and> cy v * cy v = 0 \<and> cz v * cz v = 0" by linarith
  then show "v = Vector3 0 0 0" by (cases v) simp
next
  assume "v = Vector3 0 0 0"
  then show "length3 v = 0" by (simp add: length3_def)
qed

lemma lengthOr1_pos: "0 < lengthOr1 v"
  using length3_nonneg [of v] by (simp add: lengthOr1_def less_le)

lemma length3_normalize: "length3 (normalize v) = (if length3 v = 0 then 0 else 1)"
  using length3_nonneg [of v]
  by (simp add: normalize_def divideScalar_def length3_multiplyScalar lengthOr1_def)

lemma normalize_zero: "normalize (Vector3 0 0 0) = Vector3 0 0 0"
  by (simp add: normalize_def divideScalar_def multiplyScalar_def)

section \<open>Input handlers\<close>

text \<open>
  Claim C7. In the first program of \<^verbatim>\<open>script.js\<close> and in \<^verbatim>\<open>game.js\<close> the
  jump key grants the impulse exactly when \<open>canJump\<close> holds at the key-down: then
  \<open>velocity.y\<close> becomes the jump constant and \<open>canJump\<close> is cleared; otherwise the
  state is left as it is. A second key-down with no frame in between changes nothing,
  so one key-down grants at most one impulse.
\<close>

theorem C7_jump_iff_grounded:
  "(canJump s \<longrightarrow> cy (velocity (onKeyDown_s1 ''Space'' s)) = JUMP_FORCE_s1
                 \<and> \<not> canJump (onKeyDown_s1 ''Space'' s))
   \<and> (\<not> canJump s \<longrightarrow> onKeyDown_s1 ''Space'' s = s)
   \<and> onKeyDown_s1 ''Space'' (onKeyDown_s1 ''Space'' s) = onKeyDown_s1 ''Space'' s
   \<and> (canJump s \<longrightarrow> cy (velocity (onKeyDown_g ''Space'' s)) = JUMP_VELOCITY_g
                 \<and> \<not> canJump (onKeyDown_g ''Space'' s))
   \<and> (\<not> canJump s \<longrightarrow> onKeyDown_g ''Space'' s = s)
   \<and> onKeyDown_g ''Space'' (onKeyDown_g ''Space'' s) = onKeyDown_g ''Space'' s"
  by (simp add: onKeyDown_s1_def onKeyDown_g_def setY_def)

theorem C7_jump_iff_grounded_witness:
  "canJump grounded
   \<and> cy (velocity (onKeyDown_s1 ''Space'' grounded)) = 20
   \<and> \<not> canJump (onKeyDown_s1 ''Space'' grounded)
   \<and> cy (velocity (onKeyDown_g ''Space'' grounded)) = 8
   \<and> \<not> canJump initial
   \<and> onKeyDown_s1 ''Space'' initial = initial
   \<and> onKeyDown_g ''Space'' initial = initial"
  using C7_jump_iff_grounded [of grounded] C7_jump_iff_grounded [of initial]
  by (simp add: grounded_def initial_def JUMP_FORCE_s1_def JUMP_VELOCITY_g_def)

text \<open>
  Claim C8. Whatever directional keys are held, the normalised intent vector has length
  at most 1 (so below \<open>sqrt 2\<close>); the divisor used by \<^verbatim>\<open>normalize\<close> is never zero;
  a zero-length vector stays the zero vector, and any other vector gets length 1.
\<close>

theorem C8_intent_vector_normalised:
  "length3 (inputDirection s) \<le> 1
   \<and> length3 (inputDirection s) < sqrt 2
   \<and> lengthOr1 (rawDirection s) \<noteq> 0
   \<and> (length3 (rawDirection s) = 0 \<longrightarrow> inputDirection s = Vector3 0 0 0)
   \<and> (length3 (rawDirection s) \<noteq> 0 \<longrightarrow> length3 (inputDirection s) = 1)"
proof -
  have one: "(1::real) < sqrt 2" by simp
  have pos: "lengthOr1 (rawDirection s) \<noteq> 0"
    using lengthOr1_pos [of "rawDirection s"] by simp
  have zero: "length3 (rawDirection s) = 0 \<longrightarrow> inputDirection s = Vector3 0 0 0"
    by (simp add: inputDirection_def length3_zero_iff normalize_zero)
  show ?thesis
    using one pos zero by (simp add: inputDirection_def length3_normalize)
qed

theorem C8_intent_vector_normalised_witness:
  "length3 (rawDirection initial) = 0
   \<and> inputDirection initial = Vector3 0 0 0
   \<and> length3 (rawDirection (initial\<lparr>moveForward := True, moveRight := True\<rparr>)) \<noteq> 0
   \<and> length3 (inputDirection (initial\<lparr>moveForward := True, moveRight := True\<rparr>)) = 1"
proof -
  have a: "length3 (rawDirection initial) = 0"
    by (simp add: rawDirection_def initial_def Number_def length3_def)
  have b: "length3 (rawDirection (initial\<lparr>moveForward := True, moveRight := True\<rparr>)) \<noteq> 0"
    by (simp add: rawDirection_def initial_def Number_def length3_def)
  show ?thesis
    using a b C8_intent_vector_normalised [of initial]
      C8_intent_vector_normalised [of "initial\<lparr>moveForward := True, moveRight := True\<rparr>"]
    by simp
qed

text \<open>
  Claim C5. Starting from an actor that does not crouch, the crouch key-down lowers the
  camera inside the handler, and the key-up that follows restores the eye height: in
  the second program of \<^verbatim>\<open>script.js\<close> the whole state is back to what it was, in
  \<^verbatim>\<open>game.js\<close> the current eye height and the camera height are the standing height again.
  Whatever state \<open>t\<close> the frames in between have led to, the key-up leaves the eye
  height at its value before the crouch.
\<close>

theorem C5_crouch_round_trip:
  "\<not> isCrouching s \<longrightarrow>
     cy (position (onKeyDown_s2 w ''KeyC'' s)) = cy (position s) - (PLAYER_HEIGHT_s2 - CROUCH_HEIGHT_s2)
     \<and> currentHeight_s2 (onKeyDown_s2 w ''KeyC'' s) = CROUCH_HEIGHT_s2
     \<and> currentHeight_s2 (onKeyUp_s2 ''KeyC'' (onKeyDown_s2 w ''KeyC'' s)) = currentHeight_s2 s
     \<and> onKeyUp_s2 ''KeyC'' (onKeyDown_s2 w ''KeyC'' s) = s
     \<and> currentHeight_s2 (onKeyUp_s2 ''KeyC'' t) = currentHeight_s2 s
     \<and> cy (position (onKeyDown_g ''ControlLeft'' s)) = CROUCH_HEIGHT_g
     \<and> currentHeight_g (onKeyDown_g ''ControlLeft'' s) = CROUCH_HEIGHT_g
     \<and> currentHeight_g (onKeyUp_g ''ControlLeft'' (onKeyDown_g ''ControlLeft'' s)) = currentHeight_g s
     \<and> cy (position (onKeyUp_g ''ControlLeft'' (onKeyDown_g ''ControlLeft'' s))) = currentHeight_g s
     \<and> currentHeight_g (onKeyUp_g ''ControlLeft'' t) = currentHeight_g s"
  by (cases "position s")
     (simp add: onKeyDown_s2_def onKeyUp_s2_def onKeyDown_g_def onKeyUp_g_def
        updateCameraHeight_g_def currentHeight_s2_def currentHeight_g_def setY_def)

theorem C5_crouch_round_trip_witness:
  "\<not> isCrouching grounded
   \<and> cy (position (onKeyDown_s2 emptyWorld ''KeyC'' grounded)) = 9 / 10
   \<and> onKeyUp_s2 ''KeyC'' (onKeyDown_s2 emptyWorld ''KeyC'' grounded) = grounded
   \<and> cy (position (onKeyDown_g ''ControlLeft'' grounded)) = 9 / 10
   \<and> cy (position (onKeyUp_g ''ControlLeft'' (onKeyDown_g ''ControlLeft'' grounded))) = 18 / 10"
proof -
  have h: "\<not> isCrouching grounded" by (simp add: grounded_def initial_def)
  show ?thesis
    using h C5_crouch_round_trip [of grounded emptyWorld grounded]
    by (simp add: grounded_def initial_def PLAYER_HEIGHT_s2_def CROUCH_HEIGHT_s2_def
          CROUCH_HEIGHT_g_def NORMAL_HEIGHT_g_def currentHeight_g_def)
qed

text \<open>
  Claim C9. In \<^verbatim>\<open>game.js\<close> the crouch key-down puts \<open>position.y\<close> at
  \<open>CROUCH_HEIGHT\<close> and the key-up puts it at \<open>NORMAL_HEIGHT\<close>, whatever the
  altitude was: the handlers give the same state for every previous \<open>position.y\<close>,
  so an airborne actor loses its altitude. The velocity is not touched.
\<close>

theorem C9_crouch_assigns_height:
  "cy (position (onKeyDown_g ''ControlLeft'' s)) = CROUCH_HEIGHT_g
   \<and> cy (position (onKeyUp_g ''ControlLeft'' s)) = NORMAL_HEIGHT_g
   \<and> onKeyDown_g ''ControlLeft'' (s\<lparr>position := setY (position s) h\<rparr>)
       = onKeyDown_g ''ControlLeft'' s
   \<and> onKeyUp_g ''ControlLeft'' (s\<lparr>position := setY (position s) h\<rparr>)
       = onKeyUp_g ''ControlLeft'' s
   \<and> velocity (onKeyDown_g ''ControlLeft'' s) = velocity s
   \<and> velocity (onKeyUp_g ''ControlLeft'' s) = velocity s"
  by (simp add: onKeyDown_g_def onKeyUp_g_def updateCameraHeight_g_def setY_def)

section \<open>The wall-contact jump\<close>

lemma wallJumpLoop_s2_fst:
  "fst (wallJumpLoop_s2 w p r ds) = (\<exists>d \<in> set (map (\<lambda>d. applyAxisAngleY d r) ds). wallHit_s2 w p d)"
  by (induction ds) (auto simp: Let_def split: prod.splits)

lemma wallJumpLoop_s2_snd:
  "snd (wallJumpLoop_s2 w p r ds) =
     takeWhile (\<lambda>d. \<not> wallHit_s2 w p d) (map (\<lambda>d. applyAxisAngleY d r) ds)
     @ take 1 (dropWhile (\<lambda>d. \<not> wallHit_s2 w p d) (map (\<lambda>d. applyAxisAngleY d r) ds))"
  by (induction ds) (auto simp: Let_def split: prod.splits)

lemma checkWallJump_s2_eq:
  "checkWallJump_s2 w s =
     (if wallInReach_s2 w s then s\<lparr>velocity := setY (velocity s) WALL_JUMP_FORCE_UP_s2\<rparr> else s)"
  by (simp add: checkWallJump_s2_def wallInReach_s2_def rotatedDirections_s2_def
        wallJumpLoop_s2_fst)

lemma wallHit_s2_iff:
  "wallHit_s2 w origin dir \<longleftrightarrow> (\<exists>d0 ds. w origin dir 0 (Some 10) = d0 # ds \<and> d0 < 2)"
  by (cases "w origin dir 0 (Some 10)") (simp_all add: wallHit_s2_def)

lemma rotatedDirections_s2_explicit:
  "rotatedDirections_s2 s =
     [Vector3 (cos (rotation_y s)) 0 (- sin (rotation_y s)),
      Vector3 (- cos (rotation_y s)) 0 (sin (rotation_y s)),
      Vector3 (sin (rotation_y s)) 0 (cos (rotation_y s)),
      Vector3 (- sin (rotation_y s)) 0 (- cos (rotation_y s))]"
  by (simp add: rotatedDirections_s2_def directions_s2_def applyAxisAngleY_def)

text \<open>
  Claim C6. A jump key-down while \<open>canJump\<close> is false runs \<^verbatim>\<open>checkWallJump\<close>. With
  \<open>r\<close> the yaw \<^verbatim>\<open>rotation.y\<close>, the rays go in the directions \<open>+X\<close>, \<open>-X\<close>, \<open>+Z\<close>,
  \<open>-Z\<close> rotated about the Y axis by \<open>r\<close>, that is \<open>(cos r, 0, -sin r)\<close>,
  \<open>(-cos r, 0, sin r)\<close>, \<open>(sin r, 0, cos r)\<close>, \<open>(-sin r, 0, -cos r)\<close>, in this order. A
  ray counts as a hit when it has an intersection and the nearest one is closer than 2.
  On the first hit \<open>velocity.y\<close> becomes \<open>WALL_JUMP_FORCE_UP\<close>, and the rays cast are
  exactly those up to and including that hit. The horizontal velocity, the position and
  \<open>canJump\<close> stay as they were.
\<close>

theorem C6_wall_jump_first_hit:
  "\<not> canJump s \<longrightarrow>
     onKeyDown_s2 w ''Space'' s =
       (if \<exists>d \<in> set (rotatedDirections_s2 s). wallHit_s2 w (position s) d
        then s\<lparr>velocity := setY (velocity s) WALL_JUMP_FORCE_UP_s2\<rparr> else s)
     \<and> rotatedDirections_s2 s =
         [Vector3 (cos (rotation_y s)) 0 (- sin (rotation_y s)),
          Vector3 (- cos (rotation_y s)) 0 (sin (rotation_y s)),
          Vector3 (sin (rotation_y s)) 0 (cos (rotation_y s)),
          Vector3 (- sin (rotation_y s)) 0 (- cos (rotation_y s))]
     \<and> (wallHit_s2 w (position s) d
          \<longleftrightarrow> (\<exists>d0 ds. w (position s) d 0 (Some 10) = d0 # ds \<and> d0 < 2))
     \<and> checkWallJump_rays_s2 w s =
         takeWhile (\<lambda>d. \<not> wallHit_s2 w (position s) d) (rotatedDirections_s2 s)
         @ take 1 (dropWhile (\<lambda>d. \<not> wallHit_s2 w (position s) d) (rotatedDirections_s2 s))
     \<and> cx (velocity (onKeyDown_s2 w ''Space'' s)) = cx (velocity s)
     \<and> cz (velocity (onKeyDown_s2 w ''Space'' s)) = cz (velocity s)
     \<and> position (onKeyDown_s2 w ''Space'' s) = position s
     \<and> canJump (onKeyDown_s2 w ''Space'' s) = canJump s"
proof
  assume air: "\<not> canJump s"
  have key: "onKeyDown_s2 w ''Space'' s = checkWallJump_s2 w s"
    using air by (simp add: onKeyDown_s2_def)
  have rays: "checkWallJump_rays_s2 w s =
         takeWhile (\<lambda>d. \<not> wallHit_s2 w (position s) d) (rotatedDirections_s2 s)
         @ take 1 (dropWhile (\<lambda>d. \<not> wallHit_s2 w (position s) d) (rotatedDirections_s2 s))"
    by (simp only: checkWallJump_rays_s2_def rotatedDirections_s2_def wallJumpLoop_s2_snd)
  have st: "checkWallJump_s2 w s =
       (if \<exists>d \<in> set (rotatedDirections_s2 s). wallHit_s2 w (position s) d
        then s\<lparr>velocity := setY (velocity s) WALL_JUMP_FORCE_UP_s2\<rparr> else s)"
    using checkWallJump_s2_eq [of w s] by (simp only: wallInReach_s2_def)
  have rest: "cx (velocity (checkWallJump_s2 w s)) = cx (velocity s)
     \<and> cz (velocity (checkWallJump_s2 w s)) = cz (velocity s)
     \<and> position (checkWallJump_s2 w s) = position s
     \<and> canJump (checkWallJump_s2 w s) = canJump s"
    by (simp add: checkWallJump_s2_eq setY_def)
  show "onKeyDown_s2 w ''Space'' s =
       (if \<exists>d \<in> set (rotatedDirections_s2 s). wallHit_s2 w (position s) d
        then s\<lparr>velocity := setY (velocity s) WALL_JUMP_FORCE_UP_s2\<rparr> else s)
     \<and> rotatedDirections_s2 s =
         [Vector3 (cos (rotation_y s)) 0 (- sin (rotation_y s)),
          Vector3 (- cos (rotation_y s)) 0 (sin (rotation_y s)),
          Vector3 (sin (rotation_y s)) 0 (cos (rotation_y s)),
          Vector3 (- sin (rotation_y s)) 0 (- cos (rotation_y s))]
     \<and> (wallHit_s2 w (position s) d
          \<longleftrightarrow> (\<exists>d0 ds. w (position s) d 0 (Some 10) = d0 # ds \<and> d0 < 2))
     \<and> checkWallJump_rays_s2 w s =
         takeWhile (\<lambda>d. \<not> wallHit_s2 w (position s) d) (rotatedDirections_s2 s)
         @ take 1 (dropWhile (\<lambda>d. \<not> wallHit_s2 w (position s) d) (rotatedDirections_s2 s))
     \<and> cx (velocity (onKeyDown_s2 w ''Space'' s)) = cx (velocity s)
     \<and> cz (velocity (onKeyDown_s2 w ''Space'' s)) = cz (velocity s)
     \<and> position (onKeyDown_s2 w ''Space'' s) = position s
     \<and> canJump (onKeyDown_s2 w ''Space'' s) = canJump s"
    unfolding key
    using rays st rest rotatedDirections_s2_explicit [of s] wallHit_s2_iff [of w "position s" d]
    by (intro conjI) simp_all
qed

theorem C6_wall_jump_first_hit_witness:
  "\<not> canJump turned
   \<and> rotatedDirections_s2 turned = [Vector3 0 0 (- 1), Vector3 0 0 1, Vector3 1 0 0, Vector3 (- 1) 0 0]
   \<and> wallPlaneX 1 (position turned) (Vector3 1 0 0) 0 (Some 10) = [1]
   \<and> checkWallJump_rays_s2 (wallPlaneX 1) turned = [Vector3 0 0 (- 1), Vector3 0 0 1, Vector3 1 0 0]
   \<and> velocity (onKeyDown_s2 (wallPlaneX 1) ''Space'' turned) = Vector3 0 20 0
   \<and> wallPlaneX 3 (position turned) (Vector3 1 0 0) 0 (Some 10) = [3]
   \<and> checkWallJump_rays_s2 (wallPlaneX 3) turned
       = [Vector3 0 0 (- 1), Vector3 0 0 1, Vector3 1 0 0, Vector3 (- 1) 0 0]
   \<and> onKeyDown_s2 (wallPlaneX 3) ''Space'' turned = turned"
proof -
  have air: "\<not> canJump turned" by (simp add: turned_def initial_def)
  have r: "rotation_y turned = pi / 2" by (simp add: turned_def initial_def)
  have p: "position turned = Vector3 0 (18 / 10) 0" by (simp add: turned_def initial_def)
  have v: "velocity turned = Vector3 0 0 0" by (simp add: turned_def initial_def)
  note A = C6_wall_jump_first_hit [of turned "wallPlaneX 1"]
  note B = C6_wall_jump_first_hit [of turned "wallPlaneX 3"]
  have dirs: "rotatedDirections_s2 turned
                = [Vector3 0 0 (- 1), Vector3 0 0 1, Vector3 1 0 0, Vector3 (- 1) 0 0]"
    using A [of "Vector3 0 0 0"] air by (simp add: r)
  have ray1: "wallPlaneX 1 (position turned) (Vector3 1 0 0) 0 (Some 10) = [1]"
    and ray3: "wallPlaneX 3 (position turned) (Vector3 1 0 0) 0 (Some 10) = [3]"
    by (simp_all add: wallPlaneX_def p)
  have h1: "\<not> wallHit_s2 (wallPlaneX 1) (position turned) (Vector3 0 0 (- 1))"
       "\<not> wallHit_s2 (wallPlaneX 1) (position turned) (Vector3 0 0 1)"
       "wallHit_s2 (wallPlaneX 1) (position turned) (Vector3 1 0 0)"
    using A [of "Vector3 0 0 (- 1)"] A [of "Vector3 0 0 1"] A [of "Vector3 1 0 0"] air
    by (simp_all add: wallPlaneX_def p)
  have h3: "\<not> wallHit_s2 (wallPlaneX 3) (position turned) (Vector3 0 0 (- 1))"
       "\<not> wallHit_s2 (wallPlaneX 3) (position turned) (Vector3 0 0 1)"
       "\<not> wallHit_s2 (wallPlaneX 3) (position turned) (Vector3 1 0 0)"
       "\<not> wallHit_s2 (wallPlaneX 3) (position turned) (Vector3 (- 1) 0 0)"
    using B [of "Vector3 0 0 (- 1)"] B [of "Vector3 0 0 1"] B [of "Vector3 1 0 0"]
      B [of "Vector3 (- 1) 0 0"] air
    by (simp_all add: wallPlaneX_def p)
  have a: "checkWallJump_rays_s2 (wallPlaneX 1) turned = [Vector3 0 0 (- 1), Vector3 0 0 1, Vector3 1 0 0]
     \<and> velocity (onKeyDown_s2 (wallPlaneX 1) ''Space'' turned) = Vector3 0 20 0"
    using A [of "Vector3 0 0 0"] air h1
    by (simp add: dirs v setY_def WALL_JUMP_FORCE_UP_s2_def)
  have b: "checkWallJump_rays_s2 (wallPlaneX 3) turned
       = [Vector3 0 0 (- 1), Vector3 0 0 1, Vector3 1 0 0, Vector3 (- 1) 0 0]
     \<and> onKeyDown_s2 (wallPlaneX 3) ''Space'' turned = turned"
    using B [of "Vector3 0 0 0"] air h3
    by (simp add: dirs)
  show ?thesis using air dirs ray1 ray3 a b by blast
qed

lemma pressThenFrame_s2_ascends:
  assumes "\<not> canJump s" and "isLocked s" and "cy (matrixX s) = 0"
    and "currentHeight_s2 s \<le> cy (position s)" and "wallInReach_s2 w s"
    and "0 \<le> delta" and "98 * delta \<le> 20"
  shows "\<not> canJump (pressThenFrame_s2 w delta s)
     \<and> isLocked (pressThenFrame_s2 w delta s)
     \<and> cy (matrixX (pressThenFrame_s2 w delta s)) = 0
     \<and> currentHeight_s2 (pressThenFrame_s2 w delta s) = currentHeight_s2 s
     \<and> cy (position (pressThenFrame_s2 w delta s)) = cy (position s) + (20 - 98 * delta) * delta"
proof -
  obtain px py pz where p: "position s = Vector3 px py pz" by (cases "position s")
  obtain vx vy vz where v: "velocity s = Vector3 vx vy vz" by (cases "velocity s")
  obtain mx my mz where m: "matrixX s = Vector3 mx my mz" by (cases "matrixX s")
  have my: "my = 0" using assms(3) m by simp
  have gain: "0 \<le> (20 - 98 * delta) * delta"
    using assms(6,7) by simp
  have h: "currentHeight_s2 s \<le> py" using assms(4) p by simp
  have ok: "\<not> py + (20 - 98 * delta) * delta < currentHeight_s2 s"
    using gain h by linarith
  have key: "onKeyDown_s2 w ''Space'' s = s\<lparr>velocity := Vector3 vx 20 vz\<rparr>"
    using assms(1,5) v
    by (simp add: onKeyDown_s2_def checkWallJump_s2_eq setY_def WALL_JUMP_FORCE_UP_s2_def)
  show ?thesis
    using assms(1,2) ok
    by (simp add: pressThenFrame_s2_def key animate_s2_def floorCheck_s2_def moveY_def
          moveXZ_s2_def updateVelocity_s2_def controls_moveRight_def controls_moveForward_def
          addScaledVector_def crossVectors_def camera_up_def setY_def Let_def p v m my
          currentHeight_s2_def algebra_simps)
qed

lemma pressAndTick_s2_height:
  assumes "\<not> canJump s" and "isLocked s" and "cy (matrixX s) = 0"
    and "currentHeight_s2 s \<le> cy (position s)"
    and "0 \<le> delta" and "98 * delta \<le> 20"
    and "\<forall>k<n. wallInReach_s2 w (pressAndTick_s2 w delta k s)"
  shows "\<not> canJump (pressAndTick_s2 w delta n s)
     \<and> isLocked (pressAndTick_s2 w delta n s)
     \<and> cy (matrixX (pressAndTick_s2 w delta n s)) = 0
     \<and> currentHeight_s2 (pressAndTick_s2 w delta n s) = currentHeight_s2 s
     \<and> cy (position (pressAndTick_s2 w delta n s))
         = cy (position s) + real n * ((20 - 98 * delta) * delta)"
  using assms(7)
proof (induction n)
  case 0
  then show ?case using assms(1-4) by simp
next
  case (Suc n)
  let ?t = "pressAndTick_s2 w delta n s"
  have ih: "\<not> canJump ?t \<and> isLocked ?t \<and> cy (matrixX ?t) = 0
     \<and> currentHeight_s2 ?t = currentHeight_s2 s
     \<and> cy (position ?t) = cy (position s) + real n * ((20 - 98 * delta) * delta)"
    using Suc by simp
  have reach: "wallInReach_s2 w ?t" using Suc.prems by simp
  have "0 \<le> real n * ((20 - 98 * delta) * delta)"
    using assms(5,6) by simp
  then have above: "currentHeight_s2 ?t \<le> cy (position ?t)"
    using ih assms(4) by linarith
  have step: "\<not> canJump (pressThenFrame_s2 w delta ?t)
     \<and> isLocked (pressThenFrame_s2 w delta ?t)
     \<and> cy (matrixX (pressThenFrame_s2 w delta ?t)) = 0
     \<and> currentHeight_s2 (pressThenFrame_s2 w delta ?t) = currentHeight_s2 ?t
     \<and> cy (position (pressThenFrame_s2 w delta ?t)) = cy (position ?t) + (20 - 98 * delta) * delta"
    using pressThenFrame_s2_ascends [of ?t w delta] ih above reach assms(5,6) by blast
  show ?case
    using step ih by (simp add: algebra_simps)
qed

lemma wallInReach_s2_shaftWorld: "wallInReach_s2 shaftWorld s"
  by (simp add: wallInReach_s2_def rotatedDirections_s2_def directions_s2_def wallHit_s2_def
        shaftWorld_def applyAxisAngleY_def)

text \<open>
  Claim C10. The state holds no counter and no timer for wall jumps: every jump key-down
  with \<open>canJump\<close> false and a wall in reach sets \<open>velocity.y\<close> to
  \<open>WALL_JUMP_FORCE_UP\<close> and leaves \<open>canJump\<close> false, so the next key-down qualifies
  again. With the pointer locked, a camera without roll, frames of a fixed length
  \<open>delta\<close> with \<open>0 < delta\<close> and \<open>98 * delta < 20\<close>, and a wall in reach at every
  press, \<open>n\<close> rounds of one press and one frame lift the actor by
  \<open>n * (20 - 98 * delta) * delta\<close>; the height exceeds every bound.
\<close>

theorem C10_wall_jump_unlimited:
  "(\<not> canJump s \<and> wallInReach_s2 w s \<longrightarrow>
       cy (velocity (onKeyDown_s2 w ''Space'' s)) = WALL_JUMP_FORCE_UP_s2
       \<and> \<not> canJump (onKeyDown_s2 w ''Space'' s))
   \<and> (\<not> canJump s \<and> isLocked s \<and> cy (matrixX s) = 0
       \<and> currentHeight_s2 s \<le> cy (position s) \<and> 0 < delta \<and> 98 * delta < 20
       \<and> (\<forall>k. wallInReach_s2 w (pressAndTick_s2 w delta k s)) \<longrightarrow>
         (\<forall>n. cy (position (pressAndTick_s2 w delta n s))
                = cy (position s) + real n * ((20 - 98 * delta) * delta))
         \<and> (\<forall>H. \<exists>n. H < cy (position (pressAndTick_s2 w delta n s))))"
proof (intro conjI impI)
  assume a: "\<not> canJump s \<and> wallInReach_s2 w s"
  then show "cy (velocity (onKeyDown_s2 w ''Space'' s)) = WALL_JUMP_FORCE_UP_s2"
    by (simp add: onKeyDown_s2_def checkWallJump_s2_eq setY_def)
  from a show "\<not> canJump (onKeyDown_s2 w ''Space'' s)"
    by (simp add: onKeyDown_s2_def checkWallJump_s2_eq)
next
  assume a: "\<not> canJump s \<and> isLocked s \<and> cy (matrixX s) = 0
       \<and> currentHeight_s2 s \<le> cy (position s) \<and> 0 < delta \<and> 98 * delta < 20
       \<and> (\<forall>k. wallInReach_s2 w (pressAndTick_s2 w delta k s))"
  have height: "cy (position (pressAndTick_s2 w delta n s))
                = cy (position s) + real n * ((20 - 98 * delta) * delta)" for n
    using pressAndTick_s2_height [of s delta n w] a by simp
  show "\<forall>n. cy (position (pressAndTick_s2 w delta n s))
                = cy (position s) + real n * ((20 - 98 * delta) * delta)"
    using height by simp
  have gain: "0 < (20 - 98 * delta) * delta" using a by simp
  show "\<forall>H. \<exists>n. H < cy (position (pressAndTick_s2 w delta n s))"
  proof
    fix H
    obtain n where "H - cy (position s) < real n * ((20 - 98 * delta) * delta)"
      using reals_Archimedean3 [OF gain] by blast
    then have "H < cy (position (pressAndTick_s2 w delta n s))"
      using height [of n] by linarith
    then show "\<exists>n. H < cy (position (pressAndTick_s2 w delta n s))" ..
  qed
qed

theorem C10_wall_jump_unlimited_witness:
  "\<not> canJump initial \<and> wallInReach_s2 shaftWorld initial
   \<and> cy (velocity (onKeyDown_s2 shaftWorld ''Space'' initial)) = 20
   \<and> isLocked initial \<and> cy (matrixX initial) = 0
   \<and> currentHeight_s2 initial \<le> cy (position initial)
   \<and> (\<forall>k. wallInReach_s2 shaftWorld (pressAndTick_s2 shaftWorld (1 / 10) k initial))
   \<and> cy (position (pressAndTick_s2 shaftWorld (1 / 10) 5 initial)) = 69 / 10
   \<and> (\<exists>n. 1000 < cy (position (pressAndTick_s2 shaftWorld (1 / 10) n initial)))"
proof -
  have a: "\<not> canJump initial \<and> isLocked initial \<and> cy (matrixX initial) = 0
       \<and> currentHeight_s2 initial \<le> cy (position initial)"
    by (simp add: initial_def currentHeight_s2_def PLAYER_HEIGHT_s2_def)
  have y: "cy (position initial) = 18 / 10" by (simp add: initial_def)
  have r: "\<forall>k. wallInReach_s2 shaftWorld (pressAndTick_s2 shaftWorld (1 / 10) k initial)"
    by (simp add: wallInReach_s2_shaftWorld)
  note C10 = C10_wall_jump_unlimited [of initial shaftWorld "1 / 10"]
  have v: "cy (velocity (onKeyDown_s2 shaftWorld ''Space'' initial)) = WALL_JUMP_FORCE_UP_s2"
    using C10 a wallInReach_s2_shaftWorld by blast
  have d: "(0::real) < 1 / 10 \<and> (98::real) * (1 / 10) < 20" by simp
  have t: "(\<forall>n. cy (position (pressAndTick_s2 shaftWorld (1 / 10) n initial))
                = cy (position initial) + real n * ((20 - 98 * (1 / 10)) * (1 / 10)))
     \<and> (\<forall>H. \<exists>n. H < cy (position (pressAndTick_s2 shaftWorld (1 / 10) n initial)))"
    using C10 a r d by blast
  have five: "cy (position (pressAndTick_s2 shaftWorld (1 / 10) 5 initial)) = 69 / 10"
    using t y by simp
  have high: "\<exists>n. 1000 < cy (position (pressAndTick_s2 shaftWorld (1 / 10) n initial))"
    using t by blast
  show ?thesis
    using a r v five high wallInReach_s2_shaftWorld
    by (simp add: WALL_JUMP_FORCE_UP_s2_def)
qed

section \<open>Frames\<close>

text \<open>
  Claim C1. In the second program of \<^verbatim>\<open>script.js\<close>, whose constants are
  \<open>JUMP_FORCE = 15\<close> and \<open>GRAVITY = 40\<close>, an actor at rest at \<open>(0, 1.8, 0)\<close> jumps:
  \<open>velocity.y\<close> becomes 15. The frame 0.1 seconds later subtracts the literal
  \<open>9.8 * 10 * delta\<close> and not \<open>GRAVITY * delta\<close>: the program leaves
  \<open>velocity.y = 5.2\<close> and \<open>position.y = 2.32\<close>, where the claim expects 11 and 2.9.
\<close>

theorem C1_gravity_literal_in_second_program:
  "JUMP_FORCE_s2 = 15 \<and> GRAVITY_s2 = 40
   \<and> position grounded = Vector3 0 (18 / 10) 0 \<and> velocity grounded = Vector3 0 0 0
   \<and> canJump grounded
   \<and> cy (velocity (onKeyDown_s2 w ''Space'' grounded)) = 15
   \<and> cy (velocity (animate_s2 (prevTime grounded + 100) (onKeyDown_s2 w ''Space'' grounded)))
       = 26 / 5
   \<and> cy (position (animate_s2 (prevTime grounded + 100) (onKeyDown_s2 w ''Space'' grounded)))
       = 58 / 25"
  by (simp add: JUMP_FORCE_s2_def GRAVITY_s2_def grounded_def initial_def onKeyDown_s2_def
        animate_s2_def floorCheck_s2_def moveY_def moveXZ_s2_def updateVelocity_s2_def
        controls_moveRight_def controls_moveForward_def addScaledVector_def crossVectors_def
        camera_up_def setY_def currentHeight_s2_def PLAYER_HEIGHT_s2_def Let_def)

lemma floorCheck_s1_cases:
  "(cy (position b) < PLAYER_HEIGHT_s1 \<longrightarrow>
       cy (position (floorCheck_s1 b)) = PLAYER_HEIGHT_s1
       \<and> cy (velocity (floorCheck_s1 b)) = 0 \<and> canJump (floorCheck_s1 b))
   \<and> (\<not> cy (position b) < PLAYER_HEIGHT_s1 \<longrightarrow> floorCheck_s1 b = b)
   \<and> PLAYER_HEIGHT_s1 \<le> cy (position (floorCheck_s1 b))
   \<and> (canJump b \<longrightarrow> canJump (floorCheck_s1 b))"
  by (simp add: floorCheck_s1_def setY_def)

lemma floorClamp_g_cases:
  "(cy (position b) < currentHeight_g b \<longrightarrow>
       cy (position (floorClamp_g b)) = currentHeight_g b
       \<and> cy (velocity (floorClamp_g b)) = 0 \<and> canJump (floorClamp_g b))
   \<and> (\<not> cy (position b) < currentHeight_g b \<longrightarrow> floorClamp_g b = b)
   \<and> currentHeight_g (floorClamp_g b) \<le> cy (position (floorClamp_g b))
   \<and> (canJump b \<longrightarrow> canJump (floorClamp_g b))"
  by (simp add: floorClamp_g_def setY_def currentHeight_g_def)

lemma canJump_beforeFloorCheck_s1: "canJump (beforeFloorCheck_s1 w delta s) = canJump s"
  by (simp add: beforeFloorCheck_s1_def moveY_def moveZ_s1_def moveX_s1_def
        updateVelocity_s1_def controls_moveRight_def controls_moveForward_def Let_def)

lemma canJump_beforeFloorClamp_g:
  "canJump (beforeFloorClamp_g w delta s)
     = (canJump s \<or> onObject_g w (moveY delta (moveHorizontal_g w delta
          (s\<lparr>velocity := setY (velocity s) (cy (velocity s) - GRAVITY_g * delta),
             direction := inputDirection s\<rparr>))))"
  by (simp add: beforeFloorClamp_g_def checkCollisions_g_def moveY_def moveHorizontal_g_def
        Let_def inputDirection_def rawDirection_def)

lemma animate_s1_locked:
  "isLocked s \<Longrightarrow> animate_s1 w time s
     = (floorCheck_s1 (beforeFloorCheck_s1 w ((time - prevTime s) / 1000) s))\<lparr>prevTime := time\<rparr>"
  by (simp add: animate_s1_def)

text \<open>
  Claim C3, as the programs have it. At the end of a frame of the first program of
  \<^verbatim>\<open>script.js\<close> (pointer locked) and of \<^verbatim>\<open>game.js\<close>: if \<open>position.y\<close> is below the
  current eye height, it is set to the eye height, \<open>velocity.y\<close> to 0 and \<open>canJump\<close>
  to true; otherwise the floor check changes nothing, and \<open>canJump\<close> is not cleared.
  A frame never clears \<open>canJump\<close>, and \<open>position.y\<close> is at least the eye height at
  the end of every frame.
\<close>

theorem C3_floor_clamp_sets_never_clears:
  "(isLocked s \<longrightarrow>
      (cy (position (beforeFloorCheck_s1 w ((time - prevTime s) / 1000) s)) < PLAYER_HEIGHT_s1 \<longrightarrow>
          cy (position (animate_s1 w time s)) = PLAYER_HEIGHT_s1
          \<and> cy (velocity (animate_s1 w time s)) = 0
          \<and> canJump (animate_s1 w time s))
      \<and> (\<not> cy (position (beforeFloorCheck_s1 w ((time - prevTime s) / 1000) s)) < PLAYER_HEIGHT_s1 \<longrightarrow>
          canJump (animate_s1 w time s) = canJump s
          \<and> position (animate_s1 w time s)
              = position (beforeFloorCheck_s1 w ((time - prevTime s) / 1000) s)
          \<and> velocity (animate_s1 w time s)
              = velocity (beforeFloorCheck_s1 w ((time - prevTime s) / 1000) s))
      \<and> PLAYER_HEIGHT_s1 \<le> cy (position (animate_s1 w time s))
      \<and> (canJump s \<longrightarrow> canJump (animate_s1 w time s)))
   \<and> (cy (position (beforeFloorClamp_g w delta s)) < currentHeight_g s \<longrightarrow>
          cy (position (animate_g w delta s)) = currentHeight_g s
          \<and> cy (velocity (animate_g w delta s)) = 0
          \<and> canJump (animate_g w delta s))
   \<and> (\<not> cy (position (beforeFloorClamp_g w delta s)) < currentHeight_g s \<longrightarrow>
          animate_g w delta s = beforeFloorClamp_g w delta s)
   \<and> currentHeight_g s \<le> cy (position (animate_g w delta s))
   \<and> (canJump s \<longrightarrow> canJump (animate_g w delta s))"
proof -
  let ?b = "beforeFloorCheck_s1 w ((time - prevTime s) / 1000) s"
  let ?c = "beforeFloorClamp_g w delta s"
  have crouch: "currentHeight_g ?c = currentHeight_g s"
    by (simp add: beforeFloorClamp_g_def checkCollisions_g_def moveY_def moveHorizontal_g_def
          Let_def currentHeight_g_def)
  have keep: "canJump s \<longrightarrow> canJump ?c"
    by (simp add: canJump_beforeFloorClamp_g)
  have s1: "isLocked s \<longrightarrow>
      (cy (position ?b) < PLAYER_HEIGHT_s1 \<longrightarrow>
          cy (position (animate_s1 w time s)) = PLAYER_HEIGHT_s1
          \<and> cy (velocity (animate_s1 w time s)) = 0
          \<and> canJump (animate_s1 w time s))
      \<and> (\<not> cy (position ?b) < PLAYER_HEIGHT_s1 \<longrightarrow>
          canJump (animate_s1 w time s) = canJump s
          \<and> position (animate_s1 w time s) = position ?b
          \<and> velocity (animate_s1 w time s) = velocity ?b)
      \<and> PLAYER_HEIGHT_s1 \<le> cy (position (animate_s1 w time s))
      \<and> (canJump s \<longrightarrow> canJump (animate_s1 w time s))"
    using floorCheck_s1_cases [of ?b] canJump_beforeFloorCheck_s1 [of w "(time - prevTime s) / 1000" s]
    by (auto simp: animate_s1_locked)
  have g: "(cy (position ?c) < currentHeight_g s \<longrightarrow>
          cy (position (animate_g w delta s)) = currentHeight_g s
          \<and> cy (velocity (animate_g w delta s)) = 0
          \<and> canJump (animate_g w delta s))
   \<and> (\<not> cy (position ?c) < currentHeight_g s \<longrightarrow> animate_g w delta s = ?c)
   \<and> currentHeight_g s \<le> cy (position (animate_g w delta s))
   \<and> (canJump s \<longrightarrow> canJump (animate_g w delta s))"
    using floorClamp_g_cases [of ?c] crouch keep
    by (auto simp: animate_g_def floorClamp_g_def currentHeight_g_def)
  show ?thesis using s1 g by blast
qed

theorem C3_floor_clamp_sets_never_clears_witness:
  "isLocked grounded \<and> canJump grounded
   \<and> cy (position (beforeFloorCheck_s1 emptyWorld ((100 - prevTime grounded) / 1000) grounded))
        < PLAYER_HEIGHT_s1
   \<and> cy (position (animate_s1 emptyWorld 100 grounded)) = 18 / 10
   \<and> cy (velocity (animate_s1 emptyWorld 100 grounded)) = 0
   \<and> canJump (animate_s1 emptyWorld 100 grounded)
   \<and> isLocked rising
   \<and> \<not> cy (position (beforeFloorCheck_s1 emptyWorld ((100 - prevTime rising) / 1000) rising))
        < PLAYER_HEIGHT_s1
   \<and> \<not> canJump (animate_s1 emptyWorld 100 rising)
   \<and> cy (position (beforeFloorClamp_g emptyWorld (1 / 100) grounded)) < currentHeight_g grounded
   \<and> cy (position (animate_g emptyWorld (1 / 100) grounded)) = 18 / 10
   \<and> canJump (animate_g emptyWorld (1 / 100) grounded)
   \<and> \<not> cy (position (beforeFloorClamp_g (platformY 2) (1 / 100) onPlatform))
        < currentHeight_g onPlatform
   \<and> animate_g (platformY 2) (1 / 100) onPlatform
       = beforeFloorClamp_g (platformY 2) (1 / 100) onPlatform"
proof -
  have g: "isLocked grounded \<and> canJump grounded"
    by (simp add: grounded_def initial_def)
  have r: "isLocked rising \<and> \<not> canJump rising"
    by (simp add: rising_def initial_def)
  have h1: "cy (position (beforeFloorCheck_s1 emptyWorld ((100 - prevTime grounded) / 1000) grounded))
        < PLAYER_HEIGHT_s1"
    by (simp add: beforeFloorCheck_s1_def moveY_def moveZ_s1_def moveX_s1_def
          updateVelocity_s1_def controls_moveRight_def controls_moveForward_def
          detectCollision_s1_def emptyWorld_def grounded_def initial_def setY_def Let_def
          addScaledVector_def crossVectors_def camera_up_def
          GRAVITY_s1_def PLAYER_HEIGHT_s1_def)
  have h2: "\<not> cy (position (beforeFloorCheck_s1 emptyWorld ((100 - prevTime rising) / 1000) rising))
        < PLAYER_HEIGHT_s1"
    by (simp add: beforeFloorCheck_s1_def moveY_def moveZ_s1_def moveX_s1_def
          updateVelocity_s1_def controls_moveRight_def controls_moveForward_def
          detectCollision_s1_def emptyWorld_def rising_def initial_def setY_def Let_def
          addScaledVector_def crossVectors_def camera_up_def
          GRAVITY_s1_def PLAYER_HEIGHT_s1_def)
  have h3: "cy (position (beforeFloorClamp_g emptyWorld (1 / 100) grounded)) < currentHeight_g grounded"
    by (simp add: beforeFloorClamp_g_def checkCollisions_g_def onObject_g_def emptyWorld_def
          moveY_def moveHorizontal_g_def moveVector_g_def inputDirection_def rawDirection_def
          normalize_zero Number_def length3_def grounded_def initial_def currentHeight_g_def
          NORMAL_HEIGHT_g_def GRAVITY_g_def setY_def Let_def)
  have h4: "\<not> cy (position (beforeFloorClamp_g (platformY 2) (1 / 100) onPlatform))
        < currentHeight_g onPlatform"
    by (simp add: beforeFloorClamp_g_def checkCollisions_g_def onObject_g_def platformY_def
          moveY_def moveHorizontal_g_def moveVector_g_def inputDirection_def rawDirection_def
          normalize_zero Number_def length3_def onPlatform_def initial_def currentHeight_g_def
          NORMAL_HEIGHT_g_def GRAVITY_g_def setY_def Let_def)
  have hg: "currentHeight_g grounded = 18 / 10" "PLAYER_HEIGHT_s1 = 18 / 10"
    by (simp_all add: currentHeight_g_def grounded_def initial_def NORMAL_HEIGHT_g_def
          PLAYER_HEIGHT_s1_def)
  note A = C3_floor_clamp_sets_never_clears [of grounded emptyWorld 100 "1 / 100"]
  note B = C3_floor_clamp_sets_never_clears [of rising emptyWorld 100 "1 / 100"]
  note C = C3_floor_clamp_sets_never_clears [of onPlatform "platformY 2" 100 "1 / 100"]
  have a: "cy (position (animate_s1 emptyWorld 100 grounded)) = 18 / 10
     \<and> cy (velocity (animate_s1 emptyWorld 100 grounded)) = 0
     \<and> canJump (animate_s1 emptyWorld 100 grounded)
     \<and> cy (position (animate_g emptyWorld (1 / 100) grounded)) = 18 / 10
     \<and> canJump (animate_g emptyWorld (1 / 100) grounded)"
    using A g h1 h3 hg by simp
  have b: "\<not> canJump (animate_s1 emptyWorld 100 rising)"
    using B r h2 by simp
  have c: "animate_g (platformY 2) (1 / 100) onPlatform
       = beforeFloorClamp_g (platformY 2) (1 / 100) onPlatform"
    using C h4 by simp
  show ?thesis using g r h1 h2 h3 h4 a b c by blast
qed

text \<open>
  Claim C3 as stated fails in \<^verbatim>\<open>game.js\<close>: an actor on top of a box is above the eye
  height at the end of the frame, is not clamped, and \<open>canJump\<close> is true.
\<close>

theorem C3_counterexample_flag_kept_above_floor:
  "\<not> cy (position (beforeFloorClamp_g (platformY 2) (1 / 100) onPlatform))
        < currentHeight_g onPlatform
   \<and> cy (position (animate_g (platformY 2) (1 / 100) onPlatform)) = 3798 / 1000
   \<and> canJump (animate_g (platformY 2) (1 / 100) onPlatform)"
  by (simp add: animate_g_def floorClamp_g_def beforeFloorClamp_g_def checkCollisions_g_def
        onObject_g_def platformY_def moveY_def moveHorizontal_g_def moveVector_g_def
        inputDirection_def rawDirection_def normalize_zero Number_def length3_def
        onPlatform_def initial_def currentHeight_g_def NORMAL_HEIGHT_g_def GRAVITY_g_def
        setY_def Let_def)

section \<open>Damping\<close>

lemma geometric_decay:
  fixes a :: "nat \<Rightarrow> real"
  assumes q0: "0 \<le> q" and q1: "q < 1"
    and step: "\<And>n. a (Suc n) = q * a n \<or> a (Suc n) = 0"
  shows "\<bar>a (Suc n)\<bar> \<le> \<bar>a n\<bar>" and "0 \<le> a n * a (Suc n)"
    and "\<bar>a n\<bar> \<le> q ^ n * \<bar>a 0\<bar>" and "a \<longlonglongrightarrow> 0"
proof -
  have one: "\<bar>a (Suc m)\<bar> \<le> q * \<bar>a m\<bar>" for m
    using step [of m] q0 by (auto simp: abs_mult)
  have "q * \<bar>a n\<bar> \<le> 1 * \<bar>a n\<bar>"
    using q1 by (intro mult_right_mono) simp_all
  then show "\<bar>a (Suc n)\<bar> \<le> \<bar>a n\<bar>" using one [of n] by simp
  show "0 \<le> a n * a (Suc n)"
    using step [of n] q0 by (auto simp: zero_le_mult_iff mult_le_0_iff)
  have bound: "\<bar>a m\<bar> \<le> q ^ m * \<bar>a 0\<bar>" for m
  proof (induction m)
    case 0
    show ?case by simp
  next
    case (Suc m)
    have "\<bar>a (Suc m)\<bar> \<le> q * \<bar>a m\<bar>" by (rule one)
    also have "\<dots> \<le> q * (q ^ m * \<bar>a 0\<bar>)"
      using Suc q0 by (rule mult_left_mono)
    finally show ?case by (simp add: mult.assoc)
  qed
  show "\<bar>a n\<bar> \<le> q ^ n * \<bar>a 0\<bar>" by (rule bound)
  have "(\<lambda>m. q ^ m) \<longlonglongrightarrow> 0"
    using q0 q1 by (rule LIMSEQ_realpow_zero)
  then have lim: "(\<lambda>m. q ^ m * \<bar>a 0\<bar>) \<longlonglongrightarrow> 0"
    using tendsto_mult_left_zero by blast
  show "a \<longlonglongrightarrow> 0"
  proof (rule tendsto_rabs_zero_cancel, rule tendsto_sandwich [OF _ _ tendsto_const lim])
    show "\<forall>\<^sub>F m in sequentially. 0 \<le> \<bar>a m\<bar>" by simp
    show "\<forall>\<^sub>F m in sequentially. \<bar>a m\<bar> \<le> q ^ m * \<bar>a 0\<bar>" using bound by simp
  qed
qed

lemma animate_s1_idle:
  assumes "isLocked s" and "noInput s"
  shows "isLocked (animate_s1 w (prevTime s + 1000 * delta) s)"
    and "noInput (animate_s1 w (prevTime s + 1000 * delta) s)"
    and "cx (velocity (animate_s1 w (prevTime s + 1000 * delta) s))
           = (1 - 10 * delta) * cx (velocity s)
         \<or> cx (velocity (animate_s1 w (prevTime s + 1000 * delta) s)) = 0"
    and "cz (velocity (animate_s1 w (prevTime s + 1000 * delta) s))
           = (1 - 10 * delta) * cz (velocity s)
         \<or> cz (velocity (animate_s1 w (prevTime s + 1000 * delta) s)) = 0"
  using assms
  by (simp_all add: animate_s1_def beforeFloorCheck_s1_def floorCheck_s1_def moveY_def
        moveZ_s1_def moveX_s1_def updateVelocity_s1_def controls_moveRight_def
        controls_moveForward_def noInput_def setX_def setY_def setZ_def Let_def algebra_simps)

lemma ticks_s1_idle:
  assumes "isLocked s" and "noInput s"
  shows "isLocked (ticks_s1 w delta n s) \<and> noInput (ticks_s1 w delta n s)"
proof (induction n)
  case 0
  show ?case using assms by simp
next
  case (Suc n)
  then show ?case
    using animate_s1_idle(1,2) [of "ticks_s1 w delta n s" w delta] by (simp add: Let_def)
qed

lemma ticks_s1_step:
  assumes "isLocked s" and "noInput s"
  shows "cx (velocity (ticks_s1 w delta (Suc n) s))
           = (1 - 10 * delta) * cx (velocity (ticks_s1 w delta n s))
         \<or> cx (velocity (ticks_s1 w delta (Suc n) s)) = 0"
    and "cz (velocity (ticks_s1 w delta (Suc n) s))
           = (1 - 10 * delta) * cz (velocity (ticks_s1 w delta n s))
         \<or> cz (velocity (ticks_s1 w delta (Suc n) s)) = 0"
  using ticks_s1_idle [OF assms, of w delta n]
    animate_s1_idle(3,4) [of "ticks_s1 w delta n s" w delta]
  by (simp_all add: Let_def)

lemma ticks_s1_free:
  assumes "isLocked s" and "noInput s"
  shows "cx (velocity (ticks_s1 emptyWorld delta n s)) = (1 - 10 * delta) ^ n * cx (velocity s)
     \<and> cz (velocity (ticks_s1 emptyWorld delta n s)) = (1 - 10 * delta) ^ n * cz (velocity s)"
proof (induction n)
  case 0
  show ?case by simp
next
  case (Suc n)
  let ?t = "ticks_s1 emptyWorld delta n s"
  have idle: "isLocked ?t \<and> noInput ?t"
    using ticks_s1_idle [OF assms] by simp
  have "cx (velocity (animate_s1 emptyWorld (prevTime ?t + 1000 * delta) ?t))
          = (1 - 10 * delta) * cx (velocity ?t)
      \<and> cz (velocity (animate_s1 emptyWorld (prevTime ?t + 1000 * delta) ?t))
          = (1 - 10 * delta) * cz (velocity ?t)"
    using idle
    by (simp add: animate_s1_def beforeFloorCheck_s1_def floorCheck_s1_def moveY_def
          moveZ_s1_def moveX_s1_def updateVelocity_s1_def controls_moveRight_def
          controls_moveForward_def detectCollision_s1_def emptyWorld_def noInput_def
          setY_def Let_def algebra_simps)
  then show ?case using Suc by (simp add: Let_def)
qed

text \<open>
  Claim C4, for frames of at most a tenth of a second. With the pointer locked, no
  directional key held and \<open>0 < delta \<le> 1/10\<close>, each frame of the first program of
  \<^verbatim>\<open>script.js\<close> leaves \<open>|velocity.x|\<close> and \<open>|velocity.z|\<close> no larger than before and
  never reverses their sign; after \<open>n\<close> frames they are bounded by
  \<open>(1 - 10 * delta) ^ n\<close> times the initial value, equal to it when nothing is hit,
  and they converge to 0.
\<close>

theorem C4_damping_decays_for_short_frames:
  "isLocked s \<and> noInput s \<and> 0 < delta \<and> delta \<le> 1 / 10 \<longrightarrow>
     (\<forall>n. \<bar>cx (velocity (ticks_s1 w delta (Suc n) s))\<bar> \<le> \<bar>cx (velocity (ticks_s1 w delta n s))\<bar>
        \<and> 0 \<le> cx (velocity (ticks_s1 w delta n s)) * cx (velocity (ticks_s1 w delta (Suc n) s))
        \<and> \<bar>cx (velocity (ticks_s1 w delta n s))\<bar> \<le> (1 - 10 * delta) ^ n * \<bar>cx (velocity s)\<bar>
        \<and> \<bar>cz (velocity (ticks_s1 w delta (Suc n) s))\<bar> \<le> \<bar>cz (velocity (ticks_s1 w delta n s))\<bar>
        \<and> 0 \<le> cz (velocity (ticks_s1 w delta n s)) * cz (velocity (ticks_s1 w delta (Suc n) s))
        \<and> \<bar>cz (velocity (ticks_s1 w delta n s))\<bar> \<le> (1 - 10 * delta) ^ n * \<bar>cz (velocity s)\<bar>
        \<and> cx (velocity (ticks_s1 emptyWorld delta n s)) = (1 - 10 * delta) ^ n * cx (velocity s)
        \<and> cz (velocity (ticks_s1 emptyWorld delta n s)) = (1 - 10 * delta) ^ n * cz (velocity s))
     \<and> (\<lambda>n. cx (velocity (ticks_s1 w delta n s))) \<longlonglongrightarrow> 0
     \<and> (\<lambda>n. cz (velocity (ticks_s1 w delta n s))) \<longlonglongrightarrow> 0"
proof
  assume a: "isLocked s \<and> noInput s \<and> 0 < delta \<and> delta \<le> 1 / 10"
  then have idle: "isLocked s" "noInput s" by simp_all
  have q0: "0 \<le> 1 - 10 * delta" and q1: "1 - 10 * delta < 1" using a by simp_all
  note X = geometric_decay [where a = "\<lambda>n. cx (velocity (ticks_s1 w delta n s))",
      OF q0 q1 ticks_s1_step(1) [OF idle]]
  note Z = geometric_decay [where a = "\<lambda>n. cz (velocity (ticks_s1 w delta n s))",
      OF q0 q1 ticks_s1_step(2) [OF idle]]
  have per: "\<bar>cx (velocity (ticks_s1 w delta (Suc n) s))\<bar> \<le> \<bar>cx (velocity (ticks_s1 w delta n s))\<bar>
        \<and> 0 \<le> cx (velocity (ticks_s1 w delta n s)) * cx (velocity (ticks_s1 w delta (Suc n) s))
        \<and> \<bar>cx (velocity (ticks_s1 w delta n s))\<bar> \<le> (1 - 10 * delta) ^ n * \<bar>cx (velocity s)\<bar>
        \<and> \<bar>cz (velocity (ticks_s1 w delta (Suc n) s))\<bar> \<le> \<bar>cz (velocity (ticks_s1 w delta n s))\<bar>
        \<and> 0 \<le> cz (velocity (ticks_s1 w delta n s)) * cz (velocity (ticks_s1 w delta (Suc n) s))
        \<and> \<bar>cz (velocity (ticks_s1 w delta n s))\<bar> \<le> (1 - 10 * delta) ^ n * \<bar>cz (velocity s)\<bar>
        \<and> cx (velocity (ticks_s1 emptyWorld delta n s)) = (1 - 10 * delta) ^ n * cx (velocity s)
        \<and> cz (velocity (ticks_s1 emptyWorld delta n s)) = (1 - 10 * delta) ^ n * cz (velocity s)"
    for n
    using X(1) [of n] X(2) [of n] X(3) [of n] Z(1) [of n] Z(2) [of n] Z(3) [of n]
      ticks_s1_free [OF idle, of delta n]
    by simp
  show "(\<forall>n. \<bar>cx (velocity (ticks_s1 w delta (Suc n) s))\<bar> \<le> \<bar>cx (velocity (ticks_s1 w delta n s))\<bar>
        \<and> 0 \<le> cx (velocity (ticks_s1 w delta n s)) * cx (velocity (ticks_s1 w delta (Suc n) s))
        \<and> \<bar>cx (velocity (ticks_s1 w delta n s))\<bar> \<le> (1 - 10 * delta) ^ n * \<bar>cx (velocity s)\<bar>
        \<and> \<bar>cz (velocity (ticks_s1 w delta (Suc n) s))\<bar> \<le> \<bar>cz (velocity (ticks_s1 w delta n s))\<bar>
        \<and> 0 \<le> cz (velocity (ticks_s1 w delta n s)) * cz (velocity (ticks_s1 w delta (Suc n) s))
        \<and> \<bar>cz (velocity (ticks_s1 w delta n s))\<bar> \<le> (1 - 10 * delta) ^ n * \<bar>cz (velocity s)\<bar>
        \<and> cx (velocity (ticks_s1 emptyWorld delta n s)) = (1 - 10 * delta) ^ n * cx (velocity s)
        \<and> cz (velocity (ticks_s1 emptyWorld delta n s)) = (1 - 10 * delta) ^ n * cz (velocity s))
     \<and> (\<lambda>n. cx (velocity (ticks_s1 w delta n s))) \<longlonglongrightarrow> 0
     \<and> (\<lambda>n. cz (velocity (ticks_s1 w delta n s))) \<longlonglongrightarrow> 0"
    using per X(4) Z(4) by blast
qed

theorem C4_damping_decays_for_short_frames_witness:
  "isLocked sliding \<and> noInput sliding \<and> (0::real) < 1 / 20 \<and> (1 / 20 ::real) \<le> 1 / 10
   \<and> cx (velocity sliding) = 1
   \<and> cx (velocity (ticks_s1 emptyWorld (1 / 20) 2 sliding)) = 1 / 4
   \<and> (\<lambda>n. cx (velocity (ticks_s1 emptyWorld (1 / 20) n sliding))) \<longlonglongrightarrow> 0"
proof -
  have a: "isLocked sliding \<and> noInput sliding \<and> (0::real) < 1 / 20 \<and> (1 / 20 ::real) \<le> 1 / 10"
    by (simp add: sliding_def initial_def noInput_def)
  have v: "cx (velocity sliding) = 1" by (simp add: sliding_def initial_def)
  note C4 = C4_damping_decays_for_short_frames [of sliding "1 / 20" emptyWorld]
  have two: "cx (velocity (ticks_s1 emptyWorld (1 / 20) 2 sliding))
               = (1 - 10 * (1 / 20)) ^ 2 * cx (velocity sliding)"
    using C4 a by blast
  have lim: "(\<lambda>n. cx (velocity (ticks_s1 emptyWorld (1 / 20) n sliding))) \<longlonglongrightarrow> 0"
    using C4 a by blast
  have val: "cx (velocity (ticks_s1 emptyWorld (1 / 20) 2 sliding)) = 1 / 4"
    using two v by (simp add: power2_eq_square)
  show ?thesis using a v val lim by blast
qed

text \<open>
  Claim C4 as stated fails for longer frames: with \<open>delta = 0.15\<close> the velocity
  \<open>1\<close> becomes \<open>-1/2\<close> after one frame, and with \<open>delta = 0.3\<close> it becomes \<open>-2\<close>
  and then \<open>4\<close>.
\<close>

theorem C4_counterexample_long_frames:
  "isLocked sliding \<and> noInput sliding \<and> cx (velocity sliding) = 1
   \<and> cx (velocity (ticks_s1 emptyWorld (3 / 20) 1 sliding)) = - 1 / 2
   \<and> cx (velocity (ticks_s1 emptyWorld (3 / 10) 1 sliding)) = - 2
   \<and> cx (velocity (ticks_s1 emptyWorld (3 / 10) 2 sliding)) = 4"
proof -
  have idle: "isLocked sliding" "noInput sliding"
    by (simp_all add: sliding_def initial_def noInput_def)
  have v: "cx (velocity sliding) = 1" by (simp add: sliding_def initial_def)
  have a: "cx (velocity (ticks_s1 emptyWorld (3 / 20) 1 sliding)) = - 1 / 2"
    using ticks_s1_free [OF idle, of "3 / 20" 1] v by simp
  have b: "cx (velocity (ticks_s1 emptyWorld (3 / 10) 1 sliding)) = - 2"
    using ticks_s1_free [OF idle, of "3 / 10" 1] v by simp
  have c: "cx (velocity (ticks_s1 emptyWorld (3 / 10) 2 sliding)) = 4"
    using ticks_s1_free [OF idle, of "3 / 10" 2] v by (simp add: power2_eq_square)
  show ?thesis using idle v a b c by blast
qed

section \<open>Horizontal collision\<close>

text \<open>In \<^verbatim>\<open>animate\<close> the position handed to \<^verbatim>\<open>detectCollision\<close> is the camera
  position itself, after the move, so the ray it casts has the zero vector as its
  direction.\<close>

lemma detectCollision_s1_ray:
  "detectCollision_s1 w s (position s)
     = (w (position s) (Vector3 0 0 0) 0 (Some PLAYER_RADIUS_s1) \<noteq> [])"
  by (simp add: detectCollision_s1_def subVectors_def normalize_zero Let_def)

text \<open>A ray caster that finds nothing along the zero direction never reports a
  collision to \<^verbatim>\<open>animate\<close>: both moves are always kept.\<close>

lemma collision_test_never_blocks:
  assumes "\<And>origin near far. w origin (Vector3 0 0 0) near far = []"
  shows "\<not> blockedX_s1 w delta s" and "\<not> blockedZ_s1 w delta s"
    and "moveX_s1 w delta s = controls_moveRight s (- cx (velocity s) * delta)"
    and "moveZ_s1 w delta s = controls_moveForward s (- cz (velocity s) * delta)"
  using assms
  by (simp_all add: blockedX_s1_def blockedZ_s1_def moveX_s1_def moveZ_s1_def
        detectCollision_s1_ray Let_def)

lemma wallPlaneX_zero_direction: "wallPlaneX c origin (Vector3 0 0 0) near far = []"
  by (simp add: wallPlaneX_def)

lemma sqrt2_bounds: "1 < sqrt 2" "sqrt 2 < 2"
proof -
  show "1 < sqrt 2" by simp
  show "sqrt 2 < 2" by (rule real_less_lsqrt) simp_all
qed

lemma inputDirection_forward_right:
  assumes "moveForward s" and "\<not> moveBackward s" and "moveRight s" and "\<not> moveLeft s"
    and "cy (direction s) = 0"
  shows "inputDirection s = Vector3 (1 / sqrt 2) 0 (1 / sqrt 2)"
  using assms
  by (simp add: inputDirection_def rawDirection_def Number_def normalize_def lengthOr1_def
        length3_def divideScalar_def multiplyScalar_def)

lemma inputDirection_diagonal: "inputDirection diagonal = Vector3 (1 / sqrt 2) 0 (1 / sqrt 2)"
  by (rule inputDirection_forward_right) (simp_all add: diagonal_def grounded_def initial_def)

lemma updateVelocity_s1_diagonal:
  "updateVelocity_s1 (1 / 10) diagonal
     = diagonal\<lparr>velocity := Vector3 (- (5 / sqrt 2)) (- 6) (- (5 / sqrt 2)),
                direction := Vector3 (1 / sqrt 2) 0 (1 / sqrt 2)\<rparr>"
  by (simp add: updateVelocity_s1_def inputDirection_diagonal Let_def GRAVITY_s1_def
        WALK_SPEED_s1_def)
     (simp add: diagonal_def grounded_def initial_def)

text \<open>
  Claim C2. In the first program of \<^verbatim>\<open>script.js\<close> an actor at rest at
  \<open>(0, 1.8, 0)\<close> looks along \<open>-Z\<close> and holds forward and right; a wall fills the plane
  \<open>x = 0.2\<close>. In the frame 0.1 seconds later the X-axis move takes the camera to
  \<open>x = 1 / (2 * sqrt 2)\<close>, beyond the wall. \<^verbatim>\<open>detectCollision\<close> asked from the old
  position about the new one reports the wall, but \<^verbatim>\<open>animate\<close> asks from the new
  position about itself, the test finds nothing, and the frame keeps the X-axis move and
  \<open>velocity.x\<close>: the blocked axis is neither reverted nor zeroed.
\<close>

theorem C2_x_move_into_wall_is_kept:
  "isLocked diagonal \<and> moveForward diagonal \<and> moveRight diagonal
   \<and> position diagonal = Vector3 0 (18 / 10) 0
   \<and> position (controls_moveRight (updateVelocity_s1 (1 / 10) diagonal)
        (- cx (velocity (updateVelocity_s1 (1 / 10) diagonal)) * (1 / 10)))
       = Vector3 (1 / (2 * sqrt 2)) (18 / 10) 0
   \<and> 1 / 5 < 1 / (2 * sqrt 2)
   \<and> detectCollision_s1 (wallPlaneX (1 / 5)) (updateVelocity_s1 (1 / 10) diagonal)
        (Vector3 (1 / (2 * sqrt 2)) (18 / 10) 0)
   \<and> \<not> blockedX_s1 (wallPlaneX (1 / 5)) (1 / 10) (updateVelocity_s1 (1 / 10) diagonal)
   \<and> position (animate_s1 (wallPlaneX (1 / 5)) 100 diagonal)
       = Vector3 (1 / (2 * sqrt 2)) (18 / 10) (- (1 / (2 * sqrt 2)))
   \<and> cx (velocity (animate_s1 (wallPlaneX (1 / 5)) 100 diagonal)) = - (5 / sqrt 2)"
proof -
  let ?W = "wallPlaneX (1 / 5)"
  let ?u = "updateVelocity_s1 (1 / 10) diagonal"
  have st: "isLocked diagonal \<and> moveForward diagonal \<and> moveRight diagonal
     \<and> position diagonal = Vector3 0 (18 / 10) 0"
    by (simp add: diagonal_def grounded_def initial_def)
  have m: "position (controls_moveRight ?u (- cx (velocity ?u) * (1 / 10)))
             = Vector3 (1 / (2 * sqrt 2)) (18 / 10) 0"
    by (simp add: updateVelocity_s1_diagonal controls_moveRight_def addScaledVector_def)
       (simp add: diagonal_def grounded_def initial_def)
  have beyond: "1 / 5 < 1 / (2 * sqrt 2)"
    using sqrt2_bounds by (simp add: field_simps)
  have "length3 (Vector3 a 0 0) = \<bar>a\<bar>" for a
    by (simp add: length3_def)
  then have len: "length3 (Vector3 (1 / (2 * sqrt 2)) 0 0) = 1 / (2 * sqrt 2)"
    by (simp del: real_sqrt_gt_0_iff)
  have dir: "normalize (subVectors (Vector3 (1 / (2 * sqrt 2)) (18 / 10) 0) (position ?u))
               = Vector3 1 0 0"
    by (simp add: updateVelocity_s1_diagonal st subVectors_def normalize_def lengthOr1_def len
          divideScalar_def multiplyScalar_def)
  have intended: "detectCollision_s1 ?W ?u (Vector3 (1 / (2 * sqrt 2)) (18 / 10) 0)"
    unfolding detectCollision_s1_def Let_def dir
    by (simp add: updateVelocity_s1_diagonal st wallPlaneX_def PLAYER_RADIUS_s1_def)
  note free = collision_test_never_blocks [of ?W, OF wallPlaneX_zero_direction]
  have nb: "\<not> blockedX_s1 ?W (1 / 10) ?u"
    by (rule free(1))
  have t: "(100 - prevTime diagonal) / 1000 = 1 / 10"
    by (simp add: diagonal_def grounded_def initial_def)
  have a: "animate_s1 ?W 100 diagonal
             = (floorCheck_s1 (moveY (1 / 10)
                  (controls_moveForward
                     (controls_moveRight ?u (- cx (velocity ?u) * (1 / 10)))
                     (- cz (velocity (controls_moveRight ?u (- cx (velocity ?u) * (1 / 10))))
                        * (1 / 10)))))\<lparr>prevTime := 100\<rparr>"
    using st
    by (simp add: animate_s1_locked t beforeFloorCheck_s1_def free(3,4))
  have fin: "position (animate_s1 ?W 100 diagonal)
       = Vector3 (1 / (2 * sqrt 2)) (18 / 10) (- (1 / (2 * sqrt 2)))
     \<and> cx (velocity (animate_s1 ?W 100 diagonal)) = - (5 / sqrt 2)"
    unfolding a
    by (simp add: updateVelocity_s1_diagonal floorCheck_s1_def moveY_def
          controls_moveForward_def controls_moveRight_def addScaledVector_def crossVectors_def
          camera_up_def setY_def PLAYER_HEIGHT_s1_def)
       (simp add: diagonal_def grounded_def initial_def)
  show ?thesis using st m beyond intended nb fin by blast
qed

text \<open>In \<^verbatim>\<open>game.js\<close> there is one test along the whole movement vector: for the same
  actor and a wall in the plane \<open>x = 0.2\<close> the ray to the right and the diagonal ray
  meet the wall, the ray straight ahead does not, and the frame cancels the whole
  horizontal move.\<close>

lemma length3_diagonal_step: "length3 (Vector3 (1 / (sqrt 2 * 20)) 0 (- (1 / (sqrt 2 * 20)))) = 1 / 20"
proof -
  have "Vector3 (1 / (sqrt 2 * 20)) 0 (- (1 / (sqrt 2 * 20)))
          = multiplyScalar (Vector3 1 0 (- 1)) (1 / (sqrt 2 * 20))"
    by (simp add: multiplyScalar_def)
  moreover have "length3 (Vector3 1 0 (- 1)) = sqrt 2"
    by (simp add: length3_def)
  ultimately show ?thesis
    by (simp add: length3_multiplyScalar)
qed

lemma diagonal_frame_g:
  "checkWallCollision_g (wallPlaneX (1 / 5)) diagonal (Vector3 1 0 0) (1 / 2)"
  "\<not> checkWallCollision_g (wallPlaneX (1 / 5)) diagonal (Vector3 0 0 (- 1)) (1 / 2)"
  "position (animate_g (wallPlaneX (1 / 5)) (1 / 100) diagonal) = position diagonal"
proof -
  let ?W = "wallPlaneX (1 / 5)"
  let ?s2 = "diagonal\<lparr>velocity := Vector3 0 (- (1 / 5)) 0,
                      direction := Vector3 (1 / sqrt 2) 0 (1 / sqrt 2)\<rparr>"
  have p: "position diagonal = Vector3 0 (18 / 10) 0"
    by (simp add: diagonal_def grounded_def initial_def)
  show "checkWallCollision_g ?W diagonal (Vector3 1 0 0) (1 / 2)"
    by (simp add: checkWallCollision_g_def wallPlaneX_def p)
  show "\<not> checkWallCollision_g ?W diagonal (Vector3 0 0 (- 1)) (1 / 2)"
    by (simp add: checkWallCollision_g_def wallPlaneX_def p)
  have mv: "moveVector_g (1 / 100) ?s2 = Vector3 (1 / (sqrt 2 * 20)) 0 (- (1 / (sqrt 2 * 20)))"
    by (simp add: moveVector_g_def speed_g_def NORMAL_SPEED_g_def normalize_def lengthOr1_def
          length3_def divideScalar_def multiplyScalar_def add3_def setY_def crossVectors_def
          camera_up_def Let_def diagonal_def grounded_def initial_def)
  have cd: "normalize (Vector3 (1 / (sqrt 2 * 20)) 0 (- (1 / (sqrt 2 * 20))))
              = Vector3 (1 / sqrt 2) 0 (- (1 / sqrt 2))"
    by (simp add: normalize_def lengthOr1_def length3_diagonal_step divideScalar_def
          multiplyScalar_def)
  have near: "sqrt 2 / 5 < 1 / 2"
    using sqrt2_bounds by simp
  have hit: "checkWallCollision_g ?W ?s2 (Vector3 (1 / sqrt 2) 0 (- (1 / sqrt 2))) (1 / 2)"
    using near by (simp add: checkWallCollision_g_def wallPlaneX_def p)
  have h: "moveHorizontal_g ?W (1 / 100) ?s2 = ?s2"
    using hit by (simp add: moveHorizontal_g_def mv cd length3_diagonal_step Let_def)
  have d: "inputDirection (diagonal\<lparr>velocity := Vector3 0 (- (1 / 5)) 0\<rparr>)
             = Vector3 (1 / sqrt 2) 0 (1 / sqrt 2)"
    by (rule inputDirection_forward_right)
       (simp_all add: diagonal_def grounded_def initial_def)
  have v: "velocity diagonal = Vector3 0 0 0"
    by (simp add: diagonal_def grounded_def initial_def)
  have b: "beforeFloorClamp_g ?W (1 / 100) diagonal
             = checkCollisions_g ?W (moveY (1 / 100) ?s2)"
    by (simp add: beforeFloorClamp_g_def Let_def v setY_def GRAVITY_g_def d h)
  show "position (animate_g ?W (1 / 100) diagonal) = position diagonal"
    unfolding animate_g_def b
    by (simp add: floorClamp_g_def checkCollisions_g_def onObject_g_def wallPlaneX_def
          moveY_def setY_def currentHeight_g_def NORMAL_HEIGHT_g_def p)
       (simp add: diagonal_def grounded_def initial_def)
qed

end
